theory Spec2Isabelle
  imports Complex_Main "HOL-Library.List_Lexorder" "HOL-Library.Product_Lexorder"
begin

chapter \<open>Chemistry helper: unit registry, equation matcher, reaction parsing, ICE solver\<close>

text \<open>
  A shallow embedding of the calculator's core: \<^verbatim>\<open>aliases.py\<close> (variable registry, alias
  resolution, unit conversion), \<^verbatim>\<open>chem_helper.py\<close> (equation matching and solving),
  \<^verbatim>\<open>constants.py\<close>, the bank of \<^verbatim>\<open>equations.py\<close>, and from \<^verbatim>\<open>gui.py\<close> the reaction parser,
  the extent solver and the net-ionic tool (tokenizer, dissociation rules, balancer).

  Conventions of the embedding.
  \<^item> A Python \<^verbatim>\<open>str\<close> is the list of its Unicode code points (\<open>pystr\<close>). \<open>str ''abc''\<close>
    writes an ASCII literal; a code point outside ASCII is written by name (\<open>cp_Delta\<close>).
  \<^item> A Python \<^verbatim>\<open>dict\<close> is an association list with distinct keys in insertion order;
    \<open>dict_set\<close> is \<^verbatim>\<open>d[k] = v\<close> and \<open>dict_get\<close> is \<^verbatim>\<open>d.get(k)\<close>.
  \<^item> A Python \<^verbatim>\<open>float\<close> is an IEEE-754 binary64 number (\<open>double\<close>); functions that
    compute with floats take their arithmetic as an argument, \<open>binary64\<close> for the program
    as it runs. Python's \<^verbatim>\<open>int\<close> is \<open>int\<close>.
  \<^item> An exception is the left summand of a result \<open>exn + 'a\<close>.
  \<^item> Character classes of the standard library (\<^verbatim>\<open>str.isspace\<close>, \<^verbatim>\<open>\s\<close>) are given in
    full; \<^verbatim>\<open>str.lower\<close>, \<^verbatim>\<open>str.isalpha\<close>, \<^verbatim>\<open>str.islower\<close>, \<^verbatim>\<open>str.isdigit\<close>, \<^verbatim>\<open>\d\<close> and
    case-insensitive matching are given on Basic Latin, Latin-1 and Greek, the alphabets
    of the registry and of chemical formulas; each definition says where it stops.
\<close>

section \<open>Strings, dictionaries, exceptions\<close>

type_synonym pystr = "nat list"

abbreviation (input) str :: "string \<Rightarrow> pystr" where
  "str s \<equiv> map of_char s"

abbreviation (input) cp_apostrophe :: nat where "cp_apostrophe \<equiv> 39"
abbreviation (input) cp_deg :: nat where "cp_deg \<equiv> 176"
abbreviation (input) cp_sup3 :: nat where "cp_sup3 \<equiv> 179"
abbreviation (input) cp_middot :: nat where "cp_middot \<equiv> 183"
abbreviation (input) cp_sup1 :: nat where "cp_sup1 \<equiv> 185"
abbreviation (input) cp_Angstrom :: nat where "cp_Angstrom \<equiv> 197"
abbreviation (input) cp_Delta :: nat where "cp_Delta \<equiv> 916"
abbreviation (input) cp_Sigma :: nat where "cp_Sigma \<equiv> 931"
abbreviation (input) cp_alpha :: nat where "cp_alpha \<equiv> 945"
abbreviation (input) cp_theta :: nat where "cp_theta \<equiv> 952"
abbreviation (input) cp_lambda :: nat where "cp_lambda \<equiv> 955"
abbreviation (input) cp_nu :: nat where "cp_nu \<equiv> 957"
abbreviation (input) cp_xi :: nat where "cp_xi \<equiv> 958"
abbreviation (input) cp_pi :: nat where "cp_pi \<equiv> 960"
abbreviation (input) cp_rho :: nat where "cp_rho \<equiv> 961"
abbreviation (input) cp_rho_var :: nat where "cp_rho_var \<equiv> 1009"
abbreviation (input) cp_endash :: nat where "cp_endash \<equiv> 8211"
abbreviation (input) cp_rsquo :: nat where "cp_rsquo \<equiv> 8217"
abbreviation (input) cp_sup_minus :: nat where "cp_sup_minus \<equiv> 8315"
abbreviation (input) cp_harrow :: nat where "cp_harrow \<equiv> 8596"
abbreviation (input) cp_equilibrium :: nat where "cp_equilibrium \<equiv> 8652"
abbreviation (input) cp_infty :: nat where "cp_infty \<equiv> 8734"
abbreviation (input) cp_long_harrow :: nat where "cp_long_harrow \<equiv> 10231"

text \<open>
  \<^verbatim>\<open>str.isspace\<close>, which is also the class \<^verbatim>\<open>\s\<close> of \<^verbatim>\<open>re\<close> on a \<^verbatim>\<open>str\<close> pattern: the code
  points CPython classifies as whitespace.
\<close>

definition is_space :: "nat \<Rightarrow> bool" where
  "is_space c \<longleftrightarrow>
     (9 \<le> c \<and> c \<le> 13) \<or> (28 \<le> c \<and> c \<le> 32) \<or> c = 133 \<or> c = 160 \<or> c = 5760 \<or>
     (8192 \<le> c \<and> c \<le> 8202) \<or> c = 8232 \<or> c = 8233 \<or> c = 8239 \<or> c = 8287 \<or> c = 12288"

text \<open>
  \<^verbatim>\<open>str.lower\<close> on one code point: Basic Latin, Latin-1 and the Greek capitals. Other
  scripts are left unchanged, and the two context rules of \<^verbatim>\<open>str.lower\<close> (final sigma,
  dotted capital I) are not modelled; no registry string needs them.
\<close>

definition lower_cp :: "nat \<Rightarrow> nat" where
  "lower_cp c =
     (if 65 \<le> c \<and> c \<le> 90 then c + 32
      else if 192 \<le> c \<and> c \<le> 222 \<and> c \<noteq> 215 then c + 32
      else if 913 \<le> c \<and> c \<le> 939 \<and> c \<noteq> 930 then c + 32
      else c)"

definition lower :: "pystr \<Rightarrow> pystr" where
  "lower s = map lower_cp s"

definition lstrip :: "pystr \<Rightarrow> pystr" where
  "lstrip s = dropWhile is_space s"

definition rstrip :: "pystr \<Rightarrow> pystr" where
  "rstrip s = rev (dropWhile is_space (rev s))"

definition strip :: "pystr \<Rightarrow> pystr" where
  "strip s = rstrip (lstrip s)"

definition startswith :: "pystr \<Rightarrow> pystr \<Rightarrow> bool" where
  \<comment> \<open>\<^verbatim>\<open>target.startswith(query)\<close>\<close>
  "startswith target query \<longleftrightarrow> take (length query) target = query"

definition dict_get :: "('k \<times> 'v) list \<Rightarrow> 'k \<Rightarrow> 'v option" where
  "dict_get d k = map_of d k"

fun dict_set :: "'k \<Rightarrow> 'v \<Rightarrow> ('k \<times> 'v) list \<Rightarrow> ('k \<times> 'v) list" where
  "dict_set k v [] = [(k, v)]"
| "dict_set k v ((k', v') # d) = (if k' = k then (k, v) # d else (k', v') # dict_set k v d)"

definition dict_update :: "('k \<times> 'v) list \<Rightarrow> ('k \<times> 'v) list \<Rightarrow> ('k \<times> 'v) list" where
  \<comment> \<open>\<^verbatim>\<open>d.update(d2)\<close>\<close>
  "dict_update d d2 = fold (\<lambda>(k, v). dict_set k v) d2 d"

definition dict_keys :: "('k \<times> 'v) list \<Rightarrow> 'k list" where
  "dict_keys d = map fst d"

definition dict_values :: "('k \<times> 'v) list \<Rightarrow> 'v list" where
  "dict_values d = map snd d"

section \<open>Numbers\<close>

text \<open>
  A Python \<^verbatim>\<open>float\<close> is an IEEE-754 binary64 number: a finite value, an infinity or NaN.
  The two zeros are identified (no modelled function tells them apart: a division by
  either raises). \<open>round64\<close> rounds a real number to the nearest binary64 value, ties to
  the even significand: values with 53 significant bits, least exponent \<open>2^-1074\<close>, and
  overflow to an infinity from \<open>2^1024 - 2^970\<close> on, halfway between the largest finite
  value \<open>2^1024 - 2^971\<close> and \<open>2^1024\<close>.
\<close>

datatype double = Fin real | PInf | NInf | NaN

definition round_half_even :: "real \<Rightarrow> int" where
  "round_half_even r =
     (let f = \<lfloor>r\<rfloor> in
      if r - of_int f < 1 / 2 then f
      else if r - of_int f > 1 / 2 then f + 1
      else if even f then f else f + 1)"

definition quantum :: "real \<Rightarrow> real" where
  \<comment> \<open>the spacing of binary64 values around \<open>x\<close>\<close>
  "quantum x = 2 powr of_int (max (\<lfloor>log 2 \<bar>x\<bar>\<rfloor> - 52) (- 1074))"

definition round64 :: "real \<Rightarrow> double" where
  "round64 x =
     (if \<bar>x\<bar> \<ge> 2 ^ 1024 - 2 ^ 970 then (if x > 0 then PInf else NInf)
      else if x = 0 then Fin 0
      else Fin (sgn x * of_int (round_half_even (\<bar>x\<bar> / quantum x)) * quantum x))"


fun dadd :: "double \<Rightarrow> double \<Rightarrow> double" where
  "dadd (Fin x) (Fin y) = round64 (x + y)"
| "dadd NaN _ = NaN"
| "dadd _ NaN = NaN"
| "dadd PInf NInf = NaN"
| "dadd NInf PInf = NaN"
| "dadd PInf _ = PInf"
| "dadd NInf _ = NInf"
| "dadd _ PInf = PInf"
| "dadd _ NInf = NInf"


definition dsign :: "double \<Rightarrow> int" where
  "dsign a = (case a of Fin x \<Rightarrow> (if x > 0 then 1 else if x < 0 then - 1 else 0)
              | PInf \<Rightarrow> 1 | NInf \<Rightarrow> - 1 | NaN \<Rightarrow> 0)"

definition dinf :: "int \<Rightarrow> double" where
  \<comment> \<open>the infinity of a sign; NaN for the sign of zero\<close>
  "dinf s = (if s > 0 then PInf else if s < 0 then NInf else NaN)"

fun dmul :: "double \<Rightarrow> double \<Rightarrow> double" where
  "dmul (Fin x) (Fin y) = round64 (x * y)"
| "dmul NaN _ = NaN"
| "dmul _ NaN = NaN"
| "dmul a b = dinf (dsign a * dsign b)"



definition dle :: "double \<Rightarrow> double \<Rightarrow> bool" where
  \<comment> \<open>\<^verbatim>\<open>a <= b\<close>; false when either side is NaN\<close>
  "dle a b =
     (case (a, b) of
        (NaN, _) \<Rightarrow> False | (_, NaN) \<Rightarrow> False
      | (NInf, _) \<Rightarrow> True | (_, PInf) \<Rightarrow> True
      | (Fin x, Fin y) \<Rightarrow> x \<le> y
      | _ \<Rightarrow> False)"

definition dlt :: "double \<Rightarrow> double \<Rightarrow> bool" where
  \<comment> \<open>\<^verbatim>\<open>a < b\<close>\<close>
  "dlt a b \<longleftrightarrow> dle a b \<and> a \<noteq> b"




datatype exn =
    KeyError
  | ValueError pystr
  | ZeroDivisionError


text \<open>
  A number written in the registry: a literal (\<^verbatim>\<open>1e-3\<close>, \<^verbatim>\<open>273.15\<close>, \<^verbatim>\<open>1\<close>) or one of the
  two expressions \<^verbatim>\<open>math.pi / 180\<close> and \<^verbatim>\<open>1.0/(1e3*101325.0)\<close>, evaluated when the module
  is loaded; \<^verbatim>\<open>math.pi\<close> is the float nearest to \<open>pi\<close>.
\<close>

datatype number = Lit real | Math_pi | Times number number | Over number number


section \<open>The variable registry (\<^verbatim>\<open>aliases.py\<close>)\<close>

text \<open>
  \<^verbatim>\<open>VARIABLES\<close> maps a canonical key to its metadata. The model keeps what the functions
  below read: the display name, the aliases, the base unit and the unit choices with
  \<^verbatim>\<open>base = value * factor + offset\<close>. The description text (\<^verbatim>\<open>"desc"\<close>) is read by
  \<^verbatim>\<open>var_desc\<close> only and is left out. The registry is built by one dictionary literal and
  ten \<^verbatim>\<open>VARIABLES.update({...})\<close> calls, kept here as eleven blocks in source order;
  the metadata of each variable is a constant of its own (\<open>var_Q\<close> for \<^verbatim>\<open>"Q"\<close>).
\<close>

record unit_choice =
  factor :: number
  offset :: number

record var_meta =
  v_name :: pystr
  v_aliases :: "pystr list"
  u_base :: pystr
  u_choices :: "(pystr \<times> unit_choice) list"

definition var_Q :: var_meta where
  "var_Q =
    \<lparr>v_name = str ''heat (energy)'',
     v_aliases = [str ''q'', str ''heat'', str ''energy''],
     u_base = str ''J'',
     u_choices =
       [(str ''J'', \<lparr>factor = Lit 1, offset = Lit 0\<rparr>),
        (str ''kJ'', \<lparr>factor = Lit 1000, offset = Lit 0\<rparr>),
        (str ''cal'', \<lparr>factor = Lit (523 / 125), offset = Lit 0\<rparr>),
        (str ''kcal'', \<lparr>factor = Lit 4184, offset = Lit 0\<rparr>)]\<rparr>"

definition var_m :: var_meta where
  "var_m =
    \<lparr>v_name = str ''mass'',
     v_aliases = [str ''m'', str ''mass''],
     u_base = str ''kg'',
     u_choices =
       [(str ''kg'', \<lparr>factor = Lit 1, offset = Lit 0\<rparr>),
        (str ''g'', \<lparr>factor = Lit (1 / 1000), offset = Lit 0\<rparr>)]\<rparr>"

definition var_c :: var_meta where
  "var_c =
    \<lparr>v_name = str ''specific heat capacity'',
     v_aliases = [str ''c'', str ''specific heat'', str ''specificheat'', str ''shc''],
     u_base = (str ''J/(kg'' @ cp_middot # str ''K)''),
     u_choices =
       [((str ''J/(kg'' @ cp_middot # str ''K)''), \<lparr>factor = Lit 1, offset = Lit 0\<rparr>),
        ((str ''J/(g'' @ cp_middot # str ''K)''), \<lparr>factor = Lit 1000, offset = Lit 0\<rparr>),
        ((str ''cal/(g'' @ cp_middot # cp_deg # str ''C)''), \<lparr>factor = Lit 4184, offset = Lit 0\<rparr>)]\<rparr>"

definition var_Delta_T :: var_meta where
  "var_Delta_T =
    \<lparr>v_name = str ''temperature change'',
     v_aliases = [str ''deltat'', str ''delta_t'', str ''dt'', str ''dtemp'', str ''delta temp'', (cp_Delta # str ''t''), str ''deltatemp'', str ''deltatemperature'', str ''deltaT'', str ''delta temperature''],
     u_base = str ''K'',
     u_choices =
       [(str ''K'', \<lparr>factor = Lit 1, offset = Lit 0\<rparr>),
        ((cp_deg # str ''C''), \<lparr>factor = Lit 1, offset = Lit 0\<rparr>)]\<rparr>"

definition var_p :: var_meta where
  "var_p =
    \<lparr>v_name = str ''pressure'',
     v_aliases = [str ''p'', str ''pressure'', str ''pres'', str ''press''],
     u_base = str ''Pa'',
     u_choices =
       [(str ''Pa'', \<lparr>factor = Lit 1, offset = Lit 0\<rparr>),
        (str ''kPa'', \<lparr>factor = Lit 1000, offset = Lit 0\<rparr>),
        (str ''bar'', \<lparr>factor = Lit 100000, offset = Lit 0\<rparr>),
        (str ''atm'', \<lparr>factor = Lit 101325, offset = Lit 0\<rparr>),
        (str ''psi'', \<lparr>factor = Lit (6894757293 / 1000000), offset = Lit 0\<rparr>)]\<rparr>"

definition var_V :: var_meta where
  "var_V =
    \<lparr>v_name = str ''volume'',
     v_aliases = [str ''v'', str ''vol'', str ''volume''],
     u_base = (str ''m'' @ cp_sup3 # []),
     u_choices =
       [((str ''m'' @ cp_sup3 # []), \<lparr>factor = Lit 1, offset = Lit 0\<rparr>),
        (str ''L'', \<lparr>factor = Lit (1 / 1000), offset = Lit 0\<rparr>),
        (str ''mL'', \<lparr>factor = Lit (1 / 1000000), offset = Lit 0\<rparr>),
        ((str ''cm'' @ cp_sup3 # []), \<lparr>factor = Lit (1 / 1000000), offset = Lit 0\<rparr>)]\<rparr>"

definition var_n :: var_meta where
  "var_n =
    \<lparr>v_name = str ''amount (moles)'',
     v_aliases = [str ''n'', str ''moles'', str ''amount'', str ''mol''],
     u_base = str ''mol'',
     u_choices =
       [(str ''mol'', \<lparr>factor = Lit 1, offset = Lit 0\<rparr>),
        (str ''mmol'', \<lparr>factor = Lit (1 / 1000), offset = Lit 0\<rparr>)]\<rparr>"

definition var_R :: var_meta where
  "var_R =
    \<lparr>v_name = str ''gas constant'',
     v_aliases = [str ''r'', str ''gas constant'', str ''gasconstant'', str ''rgas''],
     u_base = (str ''J/(mol'' @ cp_middot # str ''K)''),
     u_choices =
       [((str ''J/(mol'' @ cp_middot # str ''K)''), \<lparr>factor = Lit 1, offset = Lit 0\<rparr>),
        ((str ''L'' @ cp_middot # str ''atm/(mol'' @ cp_middot # str ''K)''), \<lparr>factor = Lit 101325, offset = Lit 0\<rparr>)]\<rparr>"

definition var_T :: var_meta where
  "var_T =
    \<lparr>v_name = str ''temperature'',
     v_aliases = [str ''t'', str ''temp'', str ''temperature''],
     u_base = str ''K'',
     u_choices =
       [(str ''K'', \<lparr>factor = Lit 1, offset = Lit 0\<rparr>),
        ((cp_deg # str ''C''), \<lparr>factor = Lit 1, offset = Lit (5463 / 20)\<rparr>)]\<rparr>"

definition var_rho :: var_meta where
  "var_rho =
    \<lparr>v_name = str ''density'',
     v_aliases = [str ''rho'', str ''density'', (cp_rho_var # []), str ''dens''],
     u_base = (str ''kg/m'' @ cp_sup3 # []),
     u_choices =
       [((str ''kg/m'' @ cp_sup3 # []), \<lparr>factor = Lit 1, offset = Lit 0\<rparr>),
        (str ''g/mL'', \<lparr>factor = Lit 1000, offset = Lit 0\<rparr>),
        ((str ''g/cm'' @ cp_sup3 # []), \<lparr>factor = Lit 1000, offset = Lit 0\<rparr>)]\<rparr>"

definition var_c_m :: var_meta where
  "var_c_m =
    \<lparr>v_name = str ''molarity (concentration)'',
     v_aliases = [str ''molarity'', str ''concentration'', str ''cm'', str ''c_m'', str ''conc''],
     u_base = str ''mol/L'',
     u_choices =
       [(str ''mol/L'', \<lparr>factor = Lit 1, offset = Lit 0\<rparr>),
        (str ''mmol/L'', \<lparr>factor = Lit (1 / 1000), offset = Lit 0\<rparr>)]\<rparr>"

definition var_p1 :: var_meta where
  "var_p1 =
    \<lparr>v_name = str ''initial pressure'',
     v_aliases = [str ''p1'', str ''p_1'', str ''p initial'', str ''p init''],
     u_base = str ''Pa'',
     u_choices =
       [(str ''Pa'', \<lparr>factor = Lit 1, offset = Lit 0\<rparr>),
        (str ''kPa'', \<lparr>factor = Lit 1000, offset = Lit 0\<rparr>),
        (str ''bar'', \<lparr>factor = Lit 100000, offset = Lit 0\<rparr>),
        (str ''atm'', \<lparr>factor = Lit 101325, offset = Lit 0\<rparr>),
        (str ''psi'', \<lparr>factor = Lit (6894757293 / 1000000), offset = Lit 0\<rparr>)]\<rparr>"

definition var_v1 :: var_meta where
  "var_v1 =
    \<lparr>v_name = str ''initial volume'',
     v_aliases = [str ''v1'', str ''v_1'', str ''v initial'', str ''v init''],
     u_base = (str ''m'' @ cp_sup3 # []),
     u_choices =
       [((str ''m'' @ cp_sup3 # []), \<lparr>factor = Lit 1, offset = Lit 0\<rparr>),
        (str ''L'', \<lparr>factor = Lit (1 / 1000), offset = Lit 0\<rparr>),
        (str ''mL'', \<lparr>factor = Lit (1 / 1000000), offset = Lit 0\<rparr>),
        ((str ''cm'' @ cp_sup3 # []), \<lparr>factor = Lit (1 / 1000000), offset = Lit 0\<rparr>)]\<rparr>"

definition var_p2 :: var_meta where
  "var_p2 =
    \<lparr>v_name = str ''final pressure'',
     v_aliases = [str ''p2'', str ''p_2'', str ''p final''],
     u_base = str ''Pa'',
     u_choices =
       [(str ''Pa'', \<lparr>factor = Lit 1, offset = Lit 0\<rparr>),
        (str ''kPa'', \<lparr>factor = Lit 1000, offset = Lit 0\<rparr>),
        (str ''bar'', \<lparr>factor = Lit 100000, offset = Lit 0\<rparr>),
        (str ''atm'', \<lparr>factor = Lit 101325, offset = Lit 0\<rparr>),
        (str ''psi'', \<lparr>factor = Lit (6894757293 / 1000000), offset = Lit 0\<rparr>)]\<rparr>"

definition var_v2 :: var_meta where
  "var_v2 =
    \<lparr>v_name = str ''final volume'',
     v_aliases = [str ''v2'', str ''v_2'', str ''v final''],
     u_base = (str ''m'' @ cp_sup3 # []),
     u_choices =
       [((str ''m'' @ cp_sup3 # []), \<lparr>factor = Lit 1, offset = Lit 0\<rparr>),
        (str ''L'', \<lparr>factor = Lit (1 / 1000), offset = Lit 0\<rparr>),
        (str ''mL'', \<lparr>factor = Lit (1 / 1000000), offset = Lit 0\<rparr>),
        ((str ''cm'' @ cp_sup3 # []), \<lparr>factor = Lit (1 / 1000000), offset = Lit 0\<rparr>)]\<rparr>"

definition var_p_total :: var_meta where
  "var_p_total =
    \<lparr>v_name = str ''total pressure'',
     v_aliases = [str ''p_total'', str ''ptotal'', str ''p tot'', str ''total pressure'', str ''Ptot''],
     u_base = str ''Pa'',
     u_choices =
       [(str ''Pa'', \<lparr>factor = Lit 1, offset = Lit 0\<rparr>),
        (str ''kPa'', \<lparr>factor = Lit 1000, offset = Lit 0\<rparr>),
        (str ''bar'', \<lparr>factor = Lit 100000, offset = Lit 0\<rparr>),
        (str ''atm'', \<lparr>factor = Lit 101325, offset = Lit 0\<rparr>),
        (str ''psi'', \<lparr>factor = Lit (6894757293 / 1000000), offset = Lit 0\<rparr>)]\<rparr>"

definition var_pA :: var_meta where
  "var_pA =
    \<lparr>v_name = str ''partial pressure (A)'',
     v_aliases = [str ''pa'', str ''pA'', str ''partial pressure a'', str ''p_A''],
     u_base = str ''Pa'',
     u_choices =
       [(str ''Pa'', \<lparr>factor = Lit 1, offset = Lit 0\<rparr>),
        (str ''kPa'', \<lparr>factor = Lit 1000, offset = Lit 0\<rparr>),
        (str ''bar'', \<lparr>factor = Lit 100000, offset = Lit 0\<rparr>),
        (str ''atm'', \<lparr>factor = Lit 101325, offset = Lit 0\<rparr>),
        (str ''psi'', \<lparr>factor = Lit (6894757293 / 1000000), offset = Lit 0\<rparr>)]\<rparr>"

definition var_pB :: var_meta where
  "var_pB =
    \<lparr>v_name = str ''partial pressure (B)'',
     v_aliases = [str ''pb'', str ''pB'', str ''partial pressure b'', str ''p_B''],
     u_base = str ''Pa'',
     u_choices =
       [(str ''Pa'', \<lparr>factor = Lit 1, offset = Lit 0\<rparr>),
        (str ''kPa'', \<lparr>factor = Lit 1000, offset = Lit 0\<rparr>),
        (str ''bar'', \<lparr>factor = Lit 100000, offset = Lit 0\<rparr>),
        (str ''atm'', \<lparr>factor = Lit 101325, offset = Lit 0\<rparr>),
        (str ''psi'', \<lparr>factor = Lit (6894757293 / 1000000), offset = Lit 0\<rparr>)]\<rparr>"

definition var_pC :: var_meta where
  "var_pC =
    \<lparr>v_name = str ''partial pressure (C)'',
     v_aliases = [str ''pc'', str ''pC'', str ''partial pressure c'', str ''p_C''],
     u_base = str ''Pa'',
     u_choices =
       [(str ''Pa'', \<lparr>factor = Lit 1, offset = Lit 0\<rparr>),
        (str ''kPa'', \<lparr>factor = Lit 1000, offset = Lit 0\<rparr>),
        (str ''bar'', \<lparr>factor = Lit 100000, offset = Lit 0\<rparr>),
        (str ''atm'', \<lparr>factor = Lit 101325, offset = Lit 0\<rparr>),
        (str ''psi'', \<lparr>factor = Lit (6894757293 / 1000000), offset = Lit 0\<rparr>)]\<rparr>"

definition var_y_i :: var_meta where
  "var_y_i =
    \<lparr>v_name = str ''mole fraction (i)'',
     v_aliases = [str ''y'', str ''yi'', str ''y_i'', str ''mole fraction'', str ''molefraction''],
     u_base = [],
     u_choices =
       [([], \<lparr>factor = Lit 1, offset = Lit 0\<rparr>)]\<rparr>"

definition var_n_i :: var_meta where
  "var_n_i =
    \<lparr>v_name = str ''component moles (i)'',
     v_aliases = [str ''ni'', str ''n_i'', str ''component moles'', str ''moles i''],
     u_base = str ''mol'',
     u_choices =
       [(str ''mol'', \<lparr>factor = Lit 1, offset = Lit 0\<rparr>),
        (str ''mmol'', \<lparr>factor = Lit (1 / 1000), offset = Lit 0\<rparr>)]\<rparr>"

definition var_n_total :: var_meta where
  "var_n_total =
    \<lparr>v_name = str ''total moles'',
     v_aliases = [str ''ntotal'', str ''n_total'', str ''total moles'', str ''sum moles''],
     u_base = str ''mol'',
     u_choices =
       [(str ''mol'', \<lparr>factor = Lit 1, offset = Lit 0\<rparr>),
        (str ''mmol'', \<lparr>factor = Lit (1 / 1000), offset = Lit 0\<rparr>)]\<rparr>"

definition VARIABLES_0 :: "(pystr \<times> var_meta) list" where
  "VARIABLES_0 =
   [(str ''Q'', var_Q), (str ''m'', var_m), (str ''c'', var_c),
    ((cp_Delta # str ''T''), var_Delta_T), (str ''p'', var_p), (str ''V'', var_V),
    (str ''n'', var_n), (str ''R'', var_R), (str ''T'', var_T), ((cp_rho # []), var_rho),
    (str ''c_m'', var_c_m), (str ''p1'', var_p1), (str ''v1'', var_v1),
    (str ''p2'', var_p2), (str ''v2'', var_v2), (str ''p_total'', var_p_total),
    (str ''pA'', var_pA), (str ''pB'', var_pB), (str ''pC'', var_pC),
    (str ''y_i'', var_y_i), (str ''n_i'', var_n_i), (str ''n_total'', var_n_total)]"

definition var_Delta_H_deg_rxn :: var_meta where
  "var_Delta_H_deg_rxn =
    \<lparr>v_name = str ''standard reaction enthalpy'',
     v_aliases = [str ''deltaHrxn'', (cp_Delta # str ''Hrxn''), (cp_Delta # str ''H'' @ cp_deg # []), str ''reaction enthalpy'', str ''dHrxn'', str ''del H rxn''],
     u_base = str ''J/mol'',
     u_choices =
       [(str ''J/mol'', \<lparr>factor = Lit 1, offset = Lit 0\<rparr>),
        (str ''kJ/mol'', \<lparr>factor = Lit 1000, offset = Lit 0\<rparr>)]\<rparr>"

definition var_Delta_S_deg_rxn :: var_meta where
  "var_Delta_S_deg_rxn =
    \<lparr>v_name = str ''standard reaction entropy'',
     v_aliases = [str ''deltaSrxn'', (cp_Delta # str ''Srxn''), str ''reaction entropy'', str ''dSrxn''],
     u_base = (str ''J/(mol'' @ cp_middot # str ''K)''),
     u_choices =
       [((str ''J/(mol'' @ cp_middot # str ''K)''), \<lparr>factor = Lit 1, offset = Lit 0\<rparr>),
        ((str ''kJ/(mol'' @ cp_middot # str ''K)''), \<lparr>factor = Lit 1000, offset = Lit 0\<rparr>)]\<rparr>"

definition var_Delta_G_deg_rxn :: var_meta where
  "var_Delta_G_deg_rxn =
    \<lparr>v_name = str ''standard reaction Gibbs energy'',
     v_aliases = [str ''deltaGrxn'', (cp_Delta # str ''Grxn''), str ''reaction gibbs'', str ''dGrxn'', (cp_Delta # str ''G'' @ cp_deg # [])],
     u_base = str ''J/mol'',
     u_choices =
       [(str ''J/mol'', \<lparr>factor = Lit 1, offset = Lit 0\<rparr>),
        (str ''kJ/mol'', \<lparr>factor = Lit 1000, offset = Lit 0\<rparr>)]\<rparr>"

definition VARIABLES_1 :: "(pystr \<times> var_meta) list" where
  "VARIABLES_1 =
   [((cp_Delta # str ''H'' @ cp_deg # str ''rxn''), var_Delta_H_deg_rxn),
    ((cp_Delta # str ''S'' @ cp_deg # str ''rxn''), var_Delta_S_deg_rxn),
    ((cp_Delta # str ''G'' @ cp_deg # str ''rxn''), var_Delta_G_deg_rxn)]"

definition var_Delta_H_deg_f :: var_meta where
  "var_Delta_H_deg_f =
    \<lparr>v_name = str ''standard enthalpy of formation'',
     v_aliases = [str ''deltaHf'', (cp_Delta # str ''Hf''), str ''formation enthalpy'', str ''dHf'', (cp_Delta # str ''H'' @ cp_deg # str ''f'')],
     u_base = str ''J/mol'',
     u_choices =
       [(str ''J/mol'', \<lparr>factor = Lit 1, offset = Lit 0\<rparr>),
        (str ''kJ/mol'', \<lparr>factor = Lit 1000, offset = Lit 0\<rparr>)]\<rparr>"

definition var_Delta_G_deg_f :: var_meta where
  "var_Delta_G_deg_f =
    \<lparr>v_name = str ''standard Gibbs energy of formation'',
     v_aliases = [str ''deltaGf'', (cp_Delta # str ''Gf''), str ''formation gibbs'', str ''dGf'', (cp_Delta # str ''G'' @ cp_deg # str ''f'')],
     u_base = str ''J/mol'',
     u_choices =
       [(str ''J/mol'', \<lparr>factor = Lit 1, offset = Lit 0\<rparr>),
        (str ''kJ/mol'', \<lparr>factor = Lit 1000, offset = Lit 0\<rparr>)]\<rparr>"

definition var_S_deg :: var_meta where
  "var_S_deg =
    \<lparr>v_name = str ''standard molar entropy'',
     v_aliases = [str ''Sstd'', str ''Sdeg'', str ''standard entropy'', str ''molar entropy''],
     u_base = (str ''J/(mol'' @ cp_middot # str ''K)''),
     u_choices =
       [((str ''J/(mol'' @ cp_middot # str ''K)''), \<lparr>factor = Lit 1, offset = Lit 0\<rparr>),
        ((str ''kJ/(mol'' @ cp_middot # str ''K)''), \<lparr>factor = Lit 1000, offset = Lit 0\<rparr>)]\<rparr>"

definition var_sum_Hf_prod :: var_meta where
  "var_sum_Hf_prod =
    \<lparr>v_name = (cp_Sigma # cp_nu # cp_Delta # str ''H'' @ cp_deg # str ''f(products)''),
     v_aliases = [str ''sum hf products'', (cp_Sigma # str '' hf prod''), str ''Hf sum prod''],
     u_base = str ''J/mol'',
     u_choices =
       [(str ''J/mol'', \<lparr>factor = Lit 1, offset = Lit 0\<rparr>),
        (str ''kJ/mol'', \<lparr>factor = Lit 1000, offset = Lit 0\<rparr>)]\<rparr>"

definition var_sum_Hf_react :: var_meta where
  "var_sum_Hf_react =
    \<lparr>v_name = (cp_Sigma # cp_nu # cp_Delta # str ''H'' @ cp_deg # str ''f(reactants)''),
     v_aliases = [str ''sum hf reactants'', (cp_Sigma # str '' hf react''), str ''Hf sum react''],
     u_base = str ''J/mol'',
     u_choices =
       [(str ''J/mol'', \<lparr>factor = Lit 1, offset = Lit 0\<rparr>),
        (str ''kJ/mol'', \<lparr>factor = Lit 1000, offset = Lit 0\<rparr>)]\<rparr>"

definition var_sum_Gf_prod :: var_meta where
  "var_sum_Gf_prod =
    \<lparr>v_name = (cp_Sigma # cp_nu # cp_Delta # str ''G'' @ cp_deg # str ''f(products)''),
     v_aliases = [str ''sum gf products'', (cp_Sigma # str '' gf prod''), str ''Gf sum prod''],
     u_base = str ''J/mol'',
     u_choices =
       [(str ''J/mol'', \<lparr>factor = Lit 1, offset = Lit 0\<rparr>),
        (str ''kJ/mol'', \<lparr>factor = Lit 1000, offset = Lit 0\<rparr>)]\<rparr>"

definition var_sum_Gf_react :: var_meta where
  "var_sum_Gf_react =
    \<lparr>v_name = (cp_Sigma # cp_nu # cp_Delta # str ''G'' @ cp_deg # str ''f(reactants)''),
     v_aliases = [str ''sum gf reactants'', (cp_Sigma # str '' gf react''), str ''Gf sum react''],
     u_base = str ''J/mol'',
     u_choices =
       [(str ''J/mol'', \<lparr>factor = Lit 1, offset = Lit 0\<rparr>),
        (str ''kJ/mol'', \<lparr>factor = Lit 1000, offset = Lit 0\<rparr>)]\<rparr>"

definition var_sum_S_prod :: var_meta where
  "var_sum_S_prod =
    \<lparr>v_name = (cp_Sigma # cp_nu # str ''S'' @ cp_deg # str ''(products)''),
     v_aliases = [str ''sum S products'', (cp_Sigma # str '' S prod''), str ''entropy sum prod''],
     u_base = (str ''J/(mol'' @ cp_middot # str ''K)''),
     u_choices =
       [((str ''J/(mol'' @ cp_middot # str ''K)''), \<lparr>factor = Lit 1, offset = Lit 0\<rparr>),
        ((str ''kJ/(mol'' @ cp_middot # str ''K)''), \<lparr>factor = Lit 1000, offset = Lit 0\<rparr>)]\<rparr>"

definition var_sum_S_react :: var_meta where
  "var_sum_S_react =
    \<lparr>v_name = (cp_Sigma # cp_nu # str ''S'' @ cp_deg # str ''(reactants)''),
     v_aliases = [str ''sum S reactants'', (cp_Sigma # str '' S react''), str ''entropy sum react''],
     u_base = (str ''J/(mol'' @ cp_middot # str ''K)''),
     u_choices =
       [((str ''J/(mol'' @ cp_middot # str ''K)''), \<lparr>factor = Lit 1, offset = Lit 0\<rparr>),
        ((str ''kJ/(mol'' @ cp_middot # str ''K)''), \<lparr>factor = Lit 1000, offset = Lit 0\<rparr>)]\<rparr>"

definition VARIABLES_2 :: "(pystr \<times> var_meta) list" where
  "VARIABLES_2 =
   [((cp_Delta # str ''H'' @ cp_deg # str ''f''), var_Delta_H_deg_f),
    ((cp_Delta # str ''G'' @ cp_deg # str ''f''), var_Delta_G_deg_f),
    ((str ''S'' @ cp_deg # []), var_S_deg), (str ''sum_Hf_prod'', var_sum_Hf_prod),
    (str ''sum_Hf_react'', var_sum_Hf_react), (str ''sum_Gf_prod'', var_sum_Gf_prod),
    (str ''sum_Gf_react'', var_sum_Gf_react), (str ''sum_S_prod'', var_sum_S_prod),
    (str ''sum_S_react'', var_sum_S_react)]"

definition var_K :: var_meta where
  "var_K =
    \<lparr>v_name = str ''equilibrium constant'',
     v_aliases = [str ''equilibrium constant'', str ''K_eq'', str ''Keq''],
     u_base = [],
     u_choices =
       [([], \<lparr>factor = Lit 1, offset = Lit 0\<rparr>)]\<rparr>"

definition var_lnK :: var_meta where
  "var_lnK =
    \<lparr>v_name = str ''natural log of K'',
     v_aliases = [str ''ln K'', str ''log K'', str ''log_e K''],
     u_base = [],
     u_choices =
       [([], \<lparr>factor = Lit 1, offset = Lit 0\<rparr>)]\<rparr>"

definition var_xi :: var_meta where
  "var_xi =
    \<lparr>v_name = str ''extent of reaction'',
     v_aliases = [str ''xi'', str ''extent'', str ''n_rxn'', str ''n reaction''],
     u_base = str ''mol'',
     u_choices =
       [(str ''mol'', \<lparr>factor = Lit 1, offset = Lit 0\<rparr>),
        (str ''mmol'', \<lparr>factor = Lit (1 / 1000), offset = Lit 0\<rparr>)]\<rparr>"

definition var_nu_i :: var_meta where
  "var_nu_i =
    \<lparr>v_name = str ''stoichiometric coefficient (i)'',
     v_aliases = [str ''nu_i'', str ''nu'', str ''stoich i'', str ''stoichiometric coefficient''],
     u_base = [],
     u_choices =
       [([], \<lparr>factor = Lit 1, offset = Lit 0\<rparr>)]\<rparr>"

definition var_q_rxn :: var_meta where
  "var_q_rxn =
    \<lparr>v_name = str ''heat of reaction (system)'',
     v_aliases = [str ''q_rxn'', str ''q(reaction)'', str ''reaction heat'', str ''q reaction'', str ''q''],
     u_base = str ''J'',
     u_choices =
       [(str ''J'', \<lparr>factor = Lit 1, offset = Lit 0\<rparr>),
        (str ''kJ'', \<lparr>factor = Lit 1000, offset = Lit 0\<rparr>)]\<rparr>"

definition VARIABLES_3 :: "(pystr \<times> var_meta) list" where
  "VARIABLES_3 =
   [(str ''K'', var_K), (str ''lnK'', var_lnK), ((cp_xi # []), var_xi),
    ((cp_nu # str ''_i''), var_nu_i), (str ''q_rxn'', var_q_rxn)]"

definition var_Delta_H_vap :: var_meta where
  "var_Delta_H_vap =
    \<lparr>v_name = str ''enthalpy of vaporization'',
     v_aliases = [str ''Hvap'', str ''deltaHvap'', (cp_Delta # str ''Hvap''), str ''enthalpy vaporization''],
     u_base = str ''J/mol'',
     u_choices =
       [(str ''J/mol'', \<lparr>factor = Lit 1, offset = Lit 0\<rparr>),
        (str ''kJ/mol'', \<lparr>factor = Lit 1000, offset = Lit 0\<rparr>)]\<rparr>"

definition var_Delta_H_fus :: var_meta where
  "var_Delta_H_fus =
    \<lparr>v_name = str ''enthalpy of fusion'',
     v_aliases = [str ''Hfus'', str ''deltaHfus'', (cp_Delta # str ''Hfus''), str ''enthalpy fusion''],
     u_base = str ''J/mol'',
     u_choices =
       [(str ''J/mol'', \<lparr>factor = Lit 1, offset = Lit 0\<rparr>),
        (str ''kJ/mol'', \<lparr>factor = Lit 1000, offset = Lit 0\<rparr>)]\<rparr>"

definition VARIABLES_4 :: "(pystr \<times> var_meta) list" where
  "VARIABLES_4 =
   [((cp_Delta # str ''H_vap''), var_Delta_H_vap),
    ((cp_Delta # str ''H_fus''), var_Delta_H_fus)]"

definition var_Delta_H_deg_f_gas :: var_meta where
  "var_Delta_H_deg_f_gas =
    \<lparr>v_name = str ''standard enthalpy of formation (gas)'',
     v_aliases = [str ''Hf gas'', str ''deltaHf gas'', (cp_Delta # str ''Hf(g)''), (cp_Delta # str ''H'' @ cp_deg # str ''f(g)''), str ''Hf_gas''],
     u_base = str ''J/mol'',
     u_choices =
       [(str ''J/mol'', \<lparr>factor = Lit 1, offset = Lit 0\<rparr>),
        (str ''kJ/mol'', \<lparr>factor = Lit 1000, offset = Lit 0\<rparr>)]\<rparr>"

definition var_Delta_H_deg_f_liq :: var_meta where
  "var_Delta_H_deg_f_liq =
    \<lparr>v_name = str ''standard enthalpy of formation (liquid)'',
     v_aliases = [str ''Hf liq'', str ''deltaHf liq'', (cp_Delta # str ''Hf(l)''), (cp_Delta # str ''H'' @ cp_deg # str ''f(l)''), str ''Hf_liq''],
     u_base = str ''J/mol'',
     u_choices =
       [(str ''J/mol'', \<lparr>factor = Lit 1, offset = Lit 0\<rparr>),
        (str ''kJ/mol'', \<lparr>factor = Lit 1000, offset = Lit 0\<rparr>)]\<rparr>"

definition VARIABLES_5 :: "(pystr \<times> var_meta) list" where
  "VARIABLES_5 =
   [((cp_Delta # str ''H'' @ cp_deg # str ''f_gas''), var_Delta_H_deg_f_gas),
    ((cp_Delta # str ''H'' @ cp_deg # str ''f_liq''), var_Delta_H_deg_f_liq)]"

definition var_nu_freq :: var_meta where
  "var_nu_freq =
    \<lparr>v_name = str ''frequency'',
     v_aliases = [str ''nu'', str ''v_freq'', str ''freq'', str ''frequency'', str ''f''],
     u_base = str ''Hz'',
     u_choices =
       [(str ''Hz'', \<lparr>factor = Lit 1, offset = Lit 0\<rparr>),
        (str ''kHz'', \<lparr>factor = Lit 1000, offset = Lit 0\<rparr>),
        (str ''MHz'', \<lparr>factor = Lit 1000000, offset = Lit 0\<rparr>),
        (str ''GHz'', \<lparr>factor = Lit 1000000000, offset = Lit 0\<rparr>),
        (str ''THz'', \<lparr>factor = Lit 1000000000000, offset = Lit 0\<rparr>)]\<rparr>"

definition var_lambda :: var_meta where
  "var_lambda =
    \<lparr>v_name = str ''wavelength'',
     v_aliases = [str ''lambda'', str ''wavelength'', str ''lam''],
     u_base = str ''m'',
     u_choices =
       [(str ''m'', \<lparr>factor = Lit 1, offset = Lit 0\<rparr>),
        (str ''nm'', \<lparr>factor = Lit (1 / 1000000000), offset = Lit 0\<rparr>),
        ((cp_Angstrom # []), \<lparr>factor = Lit (1 / 10000000000), offset = Lit 0\<rparr>),
        (str ''pm'', \<lparr>factor = Lit (1 / 1000000000000), offset = Lit 0\<rparr>)]\<rparr>"

definition var_h_planck :: var_meta where
  "var_h_planck =
    \<lparr>v_name = str ''Planck constant'',
     v_aliases = [str ''h'', str ''planck'', str ''planck constant''],
     u_base = (str ''J'' @ cp_middot # str ''s''),
     u_choices =
       [((str ''J'' @ cp_middot # str ''s''), \<lparr>factor = Lit 1, offset = Lit 0\<rparr>)]\<rparr>"

definition var_c0 :: var_meta where
  "var_c0 =
    \<lparr>v_name = str ''speed of light'',
     v_aliases = [str ''c'', str ''lightspeed'', str ''speed of light''],
     u_base = str ''m/s'',
     u_choices =
       [(str ''m/s'', \<lparr>factor = Lit 1, offset = Lit 0\<rparr>)]\<rparr>"

definition var_E_ph :: var_meta where
  "var_E_ph =
    \<lparr>v_name = str ''photon energy'',
     v_aliases = [str ''E'', str ''E_ph'', str ''photon energy'', str ''energy photon''],
     u_base = str ''J'',
     u_choices =
       [(str ''J'', \<lparr>factor = Lit 1, offset = Lit 0\<rparr>),
        (str ''kJ'', \<lparr>factor = Lit 1000, offset = Lit 0\<rparr>),
        (str ''eV'', \<lparr>factor = Lit (801088317 / 5000000000000000000000000000), offset = Lit 0\<rparr>),
        (str ''keV'', \<lparr>factor = Lit (801088317 / 5000000000000000000000000), offset = Lit 0\<rparr>)]\<rparr>"

definition VARIABLES_6 :: "(pystr \<times> var_meta) list" where
  "VARIABLES_6 =
   [((cp_nu # str ''_freq''), var_nu_freq), ((cp_lambda # []), var_lambda),
    (str ''h_planck'', var_h_planck), (str ''c0'', var_c0), (str ''E_ph'', var_E_ph)]"

definition var_Z :: var_meta where
  "var_Z =
    \<lparr>v_name = str ''atomic number (Z)'',
     v_aliases = [str ''Z'', str ''atomic number'', str ''charge number''],
     u_base = [],
     u_choices =
       [([], \<lparr>factor = Lit 1, offset = Lit 0\<rparr>)]\<rparr>"

definition var_n1 :: var_meta where
  "var_n1 =
    \<lparr>v_name = str ''lower principal quantum number'',
     v_aliases = [str ''n1'', str ''n lower'', str ''n initial''],
     u_base = [],
     u_choices =
       [([], \<lparr>factor = Lit 1, offset = Lit 0\<rparr>)]\<rparr>"

definition var_n2 :: var_meta where
  "var_n2 =
    \<lparr>v_name = str ''upper principal quantum number'',
     v_aliases = [str ''n2'', str ''n upper'', str ''n final''],
     u_base = [],
     u_choices =
       [([], \<lparr>factor = Lit 1, offset = Lit 0\<rparr>)]\<rparr>"

definition var_Delta_E :: var_meta where
  "var_Delta_E =
    \<lparr>v_name = str ''transition energy'',
     v_aliases = [str ''dE'', str ''deltaE'', str ''transition energy''],
     u_base = str ''J'',
     u_choices =
       [(str ''J'', \<lparr>factor = Lit 1, offset = Lit 0\<rparr>),
        (str ''eV'', \<lparr>factor = Lit (801088317 / 5000000000000000000000000000), offset = Lit 0\<rparr>),
        (str ''keV'', \<lparr>factor = Lit (801088317 / 5000000000000000000000000), offset = Lit 0\<rparr>)]\<rparr>"

definition var_R_infty :: var_meta where
  "var_R_infty =
    \<lparr>v_name = (str ''Rydberg constant ('' @ cp_infty # str '' mass)''),
     v_aliases = [str ''Rinf'', str ''Rydberg'', str ''Rydberg constant''],
     u_base = str ''1/m'',
     u_choices =
       [(str ''1/m'', \<lparr>factor = Lit 1, offset = Lit 0\<rparr>)]\<rparr>"

definition VARIABLES_7 :: "(pystr \<times> var_meta) list" where
  "VARIABLES_7 =
   [(str ''Z'', var_Z), (str ''n1'', var_n1), (str ''n2'', var_n2),
    ((cp_Delta # str ''E''), var_Delta_E), ((str ''R'' @ cp_infty # []), var_R_infty)]"

definition var_theta :: var_meta where
  "var_theta =
    \<lparr>v_name = (str ''Bragg angle '' @ cp_theta # []),
     v_aliases = [(cp_theta # []), str ''theta'', str ''bragg angle'', str ''th''],
     u_base = str ''rad'',
     u_choices =
       [(str ''rad'', \<lparr>factor = Lit 1, offset = Lit 0\<rparr>),
        (str ''deg'', \<lparr>factor = Over Math_pi (Lit 180), offset = Lit 0\<rparr>)]\<rparr>"

definition var_two_theta :: var_meta where
  "var_two_theta =
    \<lparr>v_name = (str ''diffraction angle 2'' @ cp_theta # []),
     v_aliases = [(str ''2'' @ cp_theta # []), str ''2theta'', str ''two theta''],
     u_base = str ''rad'',
     u_choices =
       [(str ''rad'', \<lparr>factor = Lit 1, offset = Lit 0\<rparr>),
        (str ''deg'', \<lparr>factor = Over Math_pi (Lit 180), offset = Lit 0\<rparr>)]\<rparr>"

definition var_d_spacing :: var_meta where
  "var_d_spacing =
    \<lparr>v_name = str ''interplanar spacing d'',
     v_aliases = [str ''d'', str ''d-spacing'', str ''interplanar spacing''],
     u_base = str ''m'',
     u_choices =
       [(str ''m'', \<lparr>factor = Lit 1, offset = Lit 0\<rparr>),
        (str ''nm'', \<lparr>factor = Lit (1 / 1000000000), offset = Lit 0\<rparr>),
        ((cp_Angstrom # []), \<lparr>factor = Lit (1 / 10000000000), offset = Lit 0\<rparr>),
        (str ''pm'', \<lparr>factor = Lit (1 / 1000000000000), offset = Lit 0\<rparr>)]\<rparr>"

definition var_a_cubic :: var_meta where
  "var_a_cubic =
    \<lparr>v_name = str ''cubic lattice parameter a'',
     v_aliases = [str ''a'', str ''lattice parameter'', str ''lattice constant''],
     u_base = str ''m'',
     u_choices =
       [(str ''m'', \<lparr>factor = Lit 1, offset = Lit 0\<rparr>),
        (str ''nm'', \<lparr>factor = Lit (1 / 1000000000), offset = Lit 0\<rparr>),
        ((cp_Angstrom # []), \<lparr>factor = Lit (1 / 10000000000), offset = Lit 0\<rparr>),
        (str ''pm'', \<lparr>factor = Lit (1 / 1000000000000), offset = Lit 0\<rparr>)]\<rparr>"

definition var_n_bragg :: var_meta where
  "var_n_bragg =
    \<lparr>v_name = str ''Bragg order'',
     v_aliases = [str ''order'', str ''bragg order'', str ''n_bragg''],
     u_base = [],
     u_choices =
       [([], \<lparr>factor = Lit 1, offset = Lit 0\<rparr>)]\<rparr>"

definition var_h_mi :: var_meta where
  "var_h_mi =
    \<lparr>v_name = str ''Miller index h'',
     v_aliases = [str ''h_mi'', str ''miller h'', str ''h(index)''],
     u_base = [],
     u_choices =
       [([], \<lparr>factor = Lit 1, offset = Lit 0\<rparr>)]\<rparr>"

definition var_k_mi :: var_meta where
  "var_k_mi =
    \<lparr>v_name = str ''Miller index k'',
     v_aliases = [str ''k_mi'', str ''miller k'', str ''k(index)''],
     u_base = [],
     u_choices =
       [([], \<lparr>factor = Lit 1, offset = Lit 0\<rparr>)]\<rparr>"

definition var_l_mi :: var_meta where
  "var_l_mi =
    \<lparr>v_name = str ''Miller index l'',
     v_aliases = [str ''l_mi'', str ''miller l'', str ''l(index)''],
     u_base = [],
     u_choices =
       [([], \<lparr>factor = Lit 1, offset = Lit 0\<rparr>)]\<rparr>"

definition var_q_scat :: var_meta where
  "var_q_scat =
    \<lparr>v_name = str ''scattering vector magnitude q'',
     v_aliases = [str ''q'', str ''q_scat'', str ''scattering vector''],
     u_base = str ''1/m'',
     u_choices =
       [(str ''1/m'', \<lparr>factor = Lit 1, offset = Lit 0\<rparr>),
        ((cp_Angstrom # cp_sup_minus # cp_sup1 # []), \<lparr>factor = Lit 10000000000, offset = Lit 0\<rparr>),
        ((str ''1/'' @ cp_Angstrom # []), \<lparr>factor = Lit 10000000000, offset = Lit 0\<rparr>)]\<rparr>"

definition var_s_recip :: var_meta where
  "var_s_recip =
    \<lparr>v_name = str ''reciprocal spacing s = 1/d'',
     v_aliases = [str ''s'', str ''s_recip'', str ''1/d'', str ''reciprocal spacing''],
     u_base = str ''1/m'',
     u_choices =
       [(str ''1/m'', \<lparr>factor = Lit 1, offset = Lit 0\<rparr>),
        ((cp_Angstrom # cp_sup_minus # cp_sup1 # []), \<lparr>factor = Lit 10000000000, offset = Lit 0\<rparr>),
        ((str ''1/'' @ cp_Angstrom # []), \<lparr>factor = Lit 10000000000, offset = Lit 0\<rparr>)]\<rparr>"

definition VARIABLES_8 :: "(pystr \<times> var_meta) list" where
  "VARIABLES_8 =
   [(str ''theta'', var_theta), (str ''two_theta'', var_two_theta),
    (str ''d_spacing'', var_d_spacing), (str ''a_cubic'', var_a_cubic),
    (str ''n_bragg'', var_n_bragg), (str ''h_mi'', var_h_mi), (str ''k_mi'', var_k_mi),
    (str ''l_mi'', var_l_mi), (str ''q_scat'', var_q_scat), (str ''s_recip'', var_s_recip)]"

definition var_x_i_liq :: var_meta where
  "var_x_i_liq =
    \<lparr>v_name = str ''mole fraction (liquid, i)'',
     v_aliases = [str ''x_i'', str ''x(liq)'', str ''mole fraction liquid'', str ''x''],
     u_base = [],
     u_choices =
       [([], \<lparr>factor = Lit 1, offset = Lit 0\<rparr>)]\<rparr>"

definition var_y_i_gas :: var_meta where
  "var_y_i_gas =
    \<lparr>v_name = str ''mole fraction (gas, i)'',
     v_aliases = [str ''y_i'', str ''y(gas)'', str ''mole fraction gas'', str ''y''],
     u_base = [],
     u_choices =
       [([], \<lparr>factor = Lit 1, offset = Lit 0\<rparr>)]\<rparr>"

definition var_P_sat_i :: var_meta where
  "var_P_sat_i =
    \<lparr>v_name = str ''pure-component vapor pressure (i)'',
     v_aliases = [str ''P*_i'', str ''Psat'', str ''Psat_i'', str ''vapour pressure i''],
     u_base = str ''Pa'',
     u_choices =
       [(str ''Pa'', \<lparr>factor = Lit 1, offset = Lit 0\<rparr>),
        (str ''kPa'', \<lparr>factor = Lit 1000, offset = Lit 0\<rparr>),
        (str ''bar'', \<lparr>factor = Lit 100000, offset = Lit 0\<rparr>),
        (str ''atm'', \<lparr>factor = Lit 101325, offset = Lit 0\<rparr>)]\<rparr>"

definition var_p_i :: var_meta where
  "var_p_i =
    \<lparr>v_name = str ''partial pressure (i)'',
     v_aliases = [str ''p_i'', str ''partial pressure i''],
     u_base = str ''Pa'',
     u_choices =
       [(str ''Pa'', \<lparr>factor = Lit 1, offset = Lit 0\<rparr>),
        (str ''kPa'', \<lparr>factor = Lit 1000, offset = Lit 0\<rparr>),
        (str ''bar'', \<lparr>factor = Lit 100000, offset = Lit 0\<rparr>),
        (str ''atm'', \<lparr>factor = Lit 101325, offset = Lit 0\<rparr>)]\<rparr>"

definition var_P_vap_total :: var_meta where
  "var_P_vap_total =
    \<lparr>v_name = str ''total vapor pressure (mixture)'',
     v_aliases = [str ''P_total_vap'', str ''Pt,vap'', str ''vapour pressure total''],
     u_base = str ''Pa'',
     u_choices =
       [(str ''Pa'', \<lparr>factor = Lit 1, offset = Lit 0\<rparr>),
        (str ''kPa'', \<lparr>factor = Lit 1000, offset = Lit 0\<rparr>),
        (str ''bar'', \<lparr>factor = Lit 100000, offset = Lit 0\<rparr>),
        (str ''atm'', \<lparr>factor = Lit 101325, offset = Lit 0\<rparr>)]\<rparr>"

definition var_kH_Px :: var_meta where
  "var_kH_Px =
    \<lparr>v_name = (str ''Henry constant (p = kH'' @ cp_middot # str ''x)''),
     v_aliases = [str ''kH'', str ''k_H'', str ''henry constant'', str ''kH(px)''],
     u_base = str ''Pa'',
     u_choices =
       [(str ''Pa'', \<lparr>factor = Lit 1, offset = Lit 0\<rparr>),
        (str ''kPa'', \<lparr>factor = Lit 1000, offset = Lit 0\<rparr>),
        (str ''bar'', \<lparr>factor = Lit 100000, offset = Lit 0\<rparr>),
        (str ''atm'', \<lparr>factor = Lit 101325, offset = Lit 0\<rparr>)]\<rparr>"

definition var_kH_cP :: var_meta where
  "var_kH_cP =
    \<lparr>v_name = (str ''Henry constant (c = kH'' @ cp_middot # str ''p)''),
     v_aliases = [str ''kH(cp)'', str ''henry c=p*k'', str ''solubility constant''],
     u_base = (str ''mol/(m'' @ cp_sup3 # cp_middot # str ''Pa)''),
     u_choices =
       [((str ''mol/(m'' @ cp_sup3 # cp_middot # str ''Pa)''), \<lparr>factor = Lit 1, offset = Lit 0\<rparr>),
        ((str ''mol/(L'' @ cp_middot # str ''atm)''), \<lparr>factor = Over (Lit 1) (Times (Lit 1000) (Lit 101325)), offset = Lit 0\<rparr>)]\<rparr>"

definition var_i_vH :: var_meta where
  "var_i_vH =
    \<lparr>v_name = (str ''van '' @ cp_rsquo # str ''t Hoff factor''),
     v_aliases = [str ''i'', str ''vant hoff factor'', (str ''van'' @ cp_apostrophe # str ''t hoff factor'')],
     u_base = [],
     u_choices =
       [([], \<lparr>factor = Lit 1, offset = Lit 0\<rparr>)]\<rparr>"

definition var_m_molal :: var_meta where
  "var_m_molal =
    \<lparr>v_name = str ''molality'',
     v_aliases = [str ''molality'', str ''m (molal)'', str ''b''],
     u_base = str ''mol/kg'',
     u_choices =
       [(str ''mol/kg'', \<lparr>factor = Lit 1, offset = Lit 0\<rparr>)]\<rparr>"

definition var_Kb :: var_meta where
  "var_Kb =
    \<lparr>v_name = str ''ebullioscopic constant'',
     v_aliases = [str ''Kb'', str ''K_b'', str ''ebullioscopic''],
     u_base = (str ''K'' @ cp_middot # str ''kg/mol''),
     u_choices =
       [((str ''K'' @ cp_middot # str ''kg/mol''), \<lparr>factor = Lit 1, offset = Lit 0\<rparr>)]\<rparr>"

definition var_Kf :: var_meta where
  "var_Kf =
    \<lparr>v_name = str ''cryoscopic constant'',
     v_aliases = [str ''Kf'', str ''K_f'', str ''cryoscopic''],
     u_base = (str ''K'' @ cp_middot # str ''kg/mol''),
     u_choices =
       [((str ''K'' @ cp_middot # str ''kg/mol''), \<lparr>factor = Lit 1, offset = Lit 0\<rparr>)]\<rparr>"

definition var_Delta_Tb :: var_meta where
  "var_Delta_Tb =
    \<lparr>v_name = str ''boiling-point elevation'',
     v_aliases = [str ''delta Tb'', (cp_Delta # str ''T_b'')],
     u_base = str ''K'',
     u_choices =
       [(str ''K'', \<lparr>factor = Lit 1, offset = Lit 0\<rparr>),
        ((cp_deg # str ''C''), \<lparr>factor = Lit 1, offset = Lit 0\<rparr>)]\<rparr>"

definition var_Delta_Tf :: var_meta where
  "var_Delta_Tf =
    \<lparr>v_name = str ''freezing-point depression'',
     v_aliases = [str ''delta Tf'', (cp_Delta # str ''T_f'')],
     u_base = str ''K'',
     u_choices =
       [(str ''K'', \<lparr>factor = Lit 1, offset = Lit 0\<rparr>),
        ((cp_deg # str ''C''), \<lparr>factor = Lit 1, offset = Lit 0\<rparr>)]\<rparr>"

definition var_pi_osm :: var_meta where
  "var_pi_osm =
    \<lparr>v_name = str ''osmotic pressure'',
     v_aliases = [str ''pi'', str ''osmotic pressure'', (cp_pi # [])],
     u_base = str ''Pa'',
     u_choices =
       [(str ''Pa'', \<lparr>factor = Lit 1, offset = Lit 0\<rparr>),
        (str ''kPa'', \<lparr>factor = Lit 1000, offset = Lit 0\<rparr>),
        (str ''bar'', \<lparr>factor = Lit 100000, offset = Lit 0\<rparr>),
        (str ''atm'', \<lparr>factor = Lit 101325, offset = Lit 0\<rparr>)]\<rparr>"

definition var_c_total_ions :: var_meta where
  "var_c_total_ions =
    \<lparr>v_name = str ''total ion concentration'',
     v_aliases = [str ''ion total conc'', str ''total ions''],
     u_base = str ''mol/L'',
     u_choices =
       [(str ''mol/L'', \<lparr>factor = Lit 1, offset = Lit 0\<rparr>),
        (str ''mmol/L'', \<lparr>factor = Lit (1 / 1000), offset = Lit 0\<rparr>)]\<rparr>"

definition VARIABLES_9 :: "(pystr \<times> var_meta) list" where
  "VARIABLES_9 =
   [(str ''x_i_liq'', var_x_i_liq), (str ''y_i_gas'', var_y_i_gas),
    (str ''P_sat_i'', var_P_sat_i), (str ''p_i'', var_p_i),
    (str ''P_vap_total'', var_P_vap_total), (str ''kH_Px'', var_kH_Px),
    (str ''kH_cP'', var_kH_cP), (str ''i_vH'', var_i_vH), (str ''m_molal'', var_m_molal),
    (str ''Kb'', var_Kb), (str ''Kf'', var_Kf), ((cp_Delta # str ''Tb''), var_Delta_Tb),
    ((cp_Delta # str ''Tf''), var_Delta_Tf), ((cp_pi # str ''_osm''), var_pi_osm),
    (str ''c_total_ions'', var_c_total_ions)]"

definition var_r_part :: var_meta where
  "var_r_part =
    \<lparr>v_name = str ''particle radius'',
     v_aliases = [str ''radius'', str ''particle radius'', str ''r_part'', str ''r_sphere''],
     u_base = str ''m'',
     u_choices =
       [(str ''m'', \<lparr>factor = Lit 1, offset = Lit 0\<rparr>),
        (str ''nm'', \<lparr>factor = Lit (1 / 1000000000), offset = Lit 0\<rparr>),
        ((cp_Angstrom # []), \<lparr>factor = Lit (1 / 10000000000), offset = Lit 0\<rparr>),
        (str ''pm'', \<lparr>factor = Lit (1 / 1000000000000), offset = Lit 0\<rparr>)]\<rparr>"

definition var_M_molar :: var_meta where
  "var_M_molar =
    \<lparr>v_name = str ''molar mass'',
     v_aliases = [str ''M'', str ''molar mass'', str ''MW'', str ''Mr'', str ''molecular weight''],
     u_base = str ''kg/mol'',
     u_choices =
       [(str ''kg/mol'', \<lparr>factor = Lit 1, offset = Lit 0\<rparr>),
        (str ''g/mol'', \<lparr>factor = Lit (1 / 1000), offset = Lit 0\<rparr>)]\<rparr>"

definition var_N_A :: var_meta where
  "var_N_A =
    \<lparr>v_name = str ''Avogadro constant'',
     v_aliases = [str ''NA'', str ''N_A'', str ''avogadro'', str ''avogadro constant''],
     u_base = str ''1/mol'',
     u_choices =
       [(str ''1/mol'', \<lparr>factor = Lit 1, offset = Lit 0\<rparr>)]\<rparr>"

definition var_N :: var_meta where
  "var_N =
    \<lparr>v_name = str ''number of particles'',
     v_aliases = [str ''N'', str ''atoms'', str ''molecules'', str ''count'', str ''# particles''],
     u_base = [],
     u_choices =
       [([], \<lparr>factor = Lit 1, offset = Lit 0\<rparr>)]\<rparr>"

definition VARIABLES_10 :: "(pystr \<times> var_meta) list" where
  "VARIABLES_10 =
   [(str ''r_part'', var_r_part), (str ''M_molar'', var_M_molar), (str ''N_A'', var_N_A),
    (str ''N'', var_N)]"

definition VARIABLES :: "(pystr \<times> var_meta) list" where
  "VARIABLES =
     foldl dict_update VARIABLES_0
       [VARIABLES_1, VARIABLES_2, VARIABLES_3, VARIABLES_4, VARIABLES_5,
        VARIABLES_6, VARIABLES_7, VARIABLES_8, VARIABLES_9, VARIABLES_10]"

subsection \<open>Unit conversion\<close>

text \<open>
  \<^verbatim>\<open>
  def convert_to_base(canonical, value, unit):
      meta = VARIABLES.get(canonical, {})
      units = meta.get("units", {})
      choices = units.get("choices", {})
      if not unit or unit not in choices:
          return value
      f = choices[unit].get("factor", 1.0)
      off = choices[unit].get("offset", 0.0)
      return value * f + off
  \<close>
  \<^verbatim>\<open>unit\<close> is \<^verbatim>\<open>Optional[str]\<close>; \<^verbatim>\<open>not unit\<close> holds for \<^verbatim>\<open>None\<close> and for the empty string.
  Every choice of the registry has both a factor and an offset, so the two defaults of
  \<^verbatim>\<open>.get\<close> are never used.
\<close>

definition choices_of :: "pystr \<Rightarrow> (pystr \<times> unit_choice) list" where
  "choices_of canonical =
     (case dict_get VARIABLES canonical of None \<Rightarrow> [] | Some meta \<Rightarrow> u_choices meta)"

definition units_for :: "pystr \<Rightarrow> pystr list" where
  "units_for canonical = dict_keys (choices_of canonical)"



subsection \<open>Alias table and \<^verbatim>\<open>normalize_var\<close>\<close>

text \<open>
  \<^verbatim>\<open>
  _ALIAS_TO_CANON = {}
  for canon, meta in VARIABLES.items():
      for a in meta["aliases"]:
          _ALIAS_TO_CANON[a.lower()] = canon
      _ALIAS_TO_CANON[meta["name"].lower()] = canon
      _ALIAS_TO_CANON[canon.lower()] = canon
  \<close>
\<close>

definition alias_step :: "pystr \<times> var_meta \<Rightarrow> (pystr \<times> pystr) list \<Rightarrow> (pystr \<times> pystr) list" where
  "alias_step cm d =
     (case cm of (canon, meta) \<Rightarrow>
        dict_set (lower canon) canon
          (dict_set (lower (v_name meta)) canon
             (fold (\<lambda>a. dict_set (lower a) canon) (v_aliases meta) d)))"

definition ALIAS_TO_CANON :: "(pystr \<times> pystr) list" where
  "ALIAS_TO_CANON = fold alias_step VARIABLES []"

definition startswith_rank :: "pystr \<Rightarrow> pystr \<Rightarrow> int" where
  \<comment> \<open>\<^verbatim>\<open>_startswith_rank(query, target)\<close>\<close>
  "startswith_rank query target = (if startswith target query then 0 else - 1)"

text \<open>
  The prefix scan of \<^verbatim>\<open>normalize_var\<close>: per variable, the display name is tried first
  (\<^verbatim>\<open>continue\<close> on a hit), then the aliases in order (\<^verbatim>\<open>break\<close> on the first hit).
\<close>

fun alias_rank :: "pystr \<Rightarrow> pystr list \<Rightarrow> int option" where
  "alias_rank key [] = None"
| "alias_rank key (a # as) =
     (let r = startswith_rank key (lower a)
      in if r \<noteq> - 1 then Some r else alias_rank key as)"

fun collect_starts :: "pystr \<Rightarrow> (pystr \<times> var_meta) list \<Rightarrow> (int \<times> pystr) list" where
  "collect_starts key [] = []"
| "collect_starts key ((canon, meta) # rest) =
     (let r = startswith_rank key (lower (v_name meta))
      in if r \<noteq> - 1 then (r, canon) # collect_starts key rest
         else (case alias_rank key (v_aliases meta) of
                 Some r' \<Rightarrow> (r', canon) # collect_starts key rest
               | None \<Rightarrow> collect_starts key rest))"

text \<open>
  \<^verbatim>\<open>
  def normalize_var(name):
      s = name.strip()
      if not s: return s
      key = s.lower()
      if key in _ALIAS_TO_CANON: return _ALIAS_TO_CANON[key]
      starts = [...]                       # the prefix scan above
      if starts:
          starts.sort(key=lambda x: (x[0], x[1]))
          return starts[0][1]
      candidates = list(_ALIAS_TO_CANON.keys())
      best = difflib.get_close_matches(key, candidates, n=1, cutoff=0.75)
      if best: return _ALIAS_TO_CANON[best[0]]
      return s
  \<close>
  \<^verbatim>\<open>difflib.get_close_matches\<close> belongs to Python's standard library, not to the repository:
  it is the parameter \<open>close_matches\<close> (called with \<^verbatim>\<open>n=1, cutoff=0.75\<close> fixed). The
  subscript \<^verbatim>\<open>_ALIAS_TO_CANON[best[0]]\<close> raises \<^verbatim>\<open>KeyError\<close> on a key the table lacks.
\<close>

definition normalize_var :: "(pystr \<Rightarrow> pystr list \<Rightarrow> pystr list) \<Rightarrow> pystr \<Rightarrow> exn + pystr" where
  "normalize_var close_matches name =
     (let s = strip name in
      if s = [] then Inr s
      else
        let key = lower s in
        case dict_get ALIAS_TO_CANON key of
          Some canon \<Rightarrow> Inr canon
        | None \<Rightarrow>
            (case sort_key (\<lambda>x. (fst x, snd x)) (collect_starts key VARIABLES) of
               first # _ \<Rightarrow> Inr (snd first)
             | [] \<Rightarrow>
                 (case close_matches key (dict_keys ALIAS_TO_CANON) of
                    b # _ \<Rightarrow>
                      (case dict_get ALIAS_TO_CANON b of
                         Some canon \<Rightarrow> Inr canon
                       | None \<Rightarrow> Inl KeyError)
                  | [] \<Rightarrow> Inr s)))"

text \<open>The variables that carry \<open>key\<close> as a lowered alias, display name or canonical key.\<close>

definition carries :: "pystr \<Rightarrow> pystr \<times> var_meta \<Rightarrow> bool" where
  "carries key cm \<longleftrightarrow>
     key \<in> set (map lower (v_aliases (snd cm) @ [v_name (snd cm), fst cm]))"

text \<open>
  Two auxiliary views of the table construction, used to evaluate it: the sequence of
  assignments the loop performs, and the last value assigned to a key in such a sequence.
\<close>

fun lookup_last :: "('k \<times> 'v) list \<Rightarrow> 'k \<Rightarrow> 'v option \<Rightarrow> 'v option" where
  "lookup_last [] k acc = acc"
| "lookup_last ((k', v) # r) k acc = lookup_last r k (if k' = k then Some v else acc)"

definition alias_assignments :: "(pystr \<times> var_meta) list \<Rightarrow> (pystr \<times> pystr) list" where
  "alias_assignments vs =
     concat (map (\<lambda>(canon, meta).
                    map (\<lambda>a. (lower a, canon)) (v_aliases meta @ [v_name meta, canon])) vs)"

section \<open>Constants and the equation bank (\<^verbatim>\<open>constants.py\<close>, \<^verbatim>\<open>equations.py\<close>)\<close>

text \<open>The physical constants, each with the decimal literal of the source.\<close>

definition CONSTANTS :: "(pystr \<times> real) list" where
  "CONSTANTS =
     [(str ''R'', 8314462618 / 1000000000),
      (str ''h'', 662607015 / 10 ^ 42),
      (str ''c'', 299792458),
      (str ''e'', 1602176634 / 10 ^ 28),
      (str ''R'' @ [cp_infty], 10973731.56816),
      (str ''E_H'', 13.605693122994),
      (cp_lambda # str ''_CuK'' @ [cp_alpha], 1.54060 / 10 ^ 10),
      (cp_lambda # str ''_CuK'' @ cp_alpha # str ''1'', 1.54059 / 10 ^ 10),
      (cp_lambda # str ''_CuK'' @ cp_alpha # str ''2'', 1.54443 / 10 ^ 10),
      (cp_lambda # str ''_MoK'' @ [cp_alpha], 7.093 / 10 ^ 11)]"

text \<open>
  An equation of the bank: \<^verbatim>\<open>{"key", "name", "variables", "formula", "solve", "notes"}\<close>.
  The display texts \<^verbatim>\<open>"formula"\<close> and \<^verbatim>\<open>"notes"\<close> are left out. \<^verbatim>\<open>"solve"\<close> maps a target
  variable to its solver, a function of the value dictionary; the type of solvers is the
  parameter \<open>'s\<close>. Every equation of the bank has a \<^verbatim>\<open>"solve"\<close> entry.
\<close>

record 's equation =
  eq_key :: pystr
  eq_name :: pystr
  eq_variables :: "pystr list"
  eq_solve :: "(pystr \<times> 's) list"

text \<open>
  The bank lists 42 equations. Their solver bodies are floating-point formulas
  (\<^verbatim>\<open>lambda v: v["m"] * v["c"] * v["\<Delta>T"]\<close>); the matcher never calls them, so the bank is
  given over an arbitrary family \<open>body key target\<close> of solver bodies, with the targets of
  each \<^verbatim>\<open>"solve"\<close> dictionary in source order.
\<close>

definition solvers :: "(pystr \<Rightarrow> pystr \<Rightarrow> 's) \<Rightarrow> pystr \<Rightarrow> pystr list \<Rightarrow> (pystr \<times> 's) list" where
  "solvers body key targets = map (\<lambda>t. (t, body key t)) targets"

definition eq_specific_heat :: "(pystr \<Rightarrow> pystr \<Rightarrow> 's) \<Rightarrow> 's equation" where
  "eq_specific_heat body =
    \<lparr>eq_key = str ''specific_heat'',
     eq_name = str ''Specific Heat Capacity'',
     eq_variables = [str ''Q'', str ''m'', str ''c'', (cp_Delta # str ''T'')],
     eq_solve = solvers body (str ''specific_heat'')
       [str ''Q'', str ''m'', str ''c'', (cp_Delta # str ''T'')]\<rparr>"

definition eq_ideal_gas_law :: "(pystr \<Rightarrow> pystr \<Rightarrow> 's) \<Rightarrow> 's equation" where
  "eq_ideal_gas_law body =
    \<lparr>eq_key = str ''ideal_gas_law'',
     eq_name = str ''Ideal Gas Law'',
     eq_variables = [str ''p'', str ''V'', str ''n'', str ''R'', str ''T''],
     eq_solve = solvers body (str ''ideal_gas_law'')
       [str ''p'', str ''V'', str ''n'', str ''R'', str ''T'']\<rparr>"

definition eq_density :: "(pystr \<Rightarrow> pystr \<Rightarrow> 's) \<Rightarrow> 's equation" where
  "eq_density body =
    \<lparr>eq_key = str ''density'',
     eq_name = str ''Density'',
     eq_variables = [(cp_rho # []), str ''m'', str ''V''],
     eq_solve = solvers body (str ''density'')
       [(cp_rho # []), str ''m'', str ''V'']\<rparr>"

definition eq_sphere_volume :: "(pystr \<Rightarrow> pystr \<Rightarrow> 's) \<Rightarrow> 's equation" where
  "eq_sphere_volume body =
    \<lparr>eq_key = str ''sphere_volume'',
     eq_name = str ''Sphere volume'',
     eq_variables = [str ''V'', str ''r_part''],
     eq_solve = solvers body (str ''sphere_volume'')
       [str ''V'', str ''r_part'']\<rparr>"

definition eq_mass_moles_molar_mass :: "(pystr \<Rightarrow> pystr \<Rightarrow> 's) \<Rightarrow> 's equation" where
  "eq_mass_moles_molar_mass body =
    \<lparr>eq_key = str ''mass_moles_molar_mass'',
     eq_name = (str ''Mass'' @ cp_endash # str ''moles'' @ cp_endash # str ''molar mass''),
     eq_variables = [str ''m'', str ''n'', str ''M_molar''],
     eq_solve = solvers body (str ''mass_moles_molar_mass'')
       [str ''m'', str ''n'', str ''M_molar'']\<rparr>"

definition eq_particle_count :: "(pystr \<Rightarrow> pystr \<Rightarrow> 's) \<Rightarrow> 's equation" where
  "eq_particle_count body =
    \<lparr>eq_key = str ''particle_count'',
     eq_name = str ''Particle count'',
     eq_variables = [str ''N'', str ''n'', str ''N_A''],
     eq_solve = solvers body (str ''particle_count'')
       [str ''N'', str ''n'', str ''N_A'']\<rparr>"

definition eq_particle_count_from_radius :: "(pystr \<Rightarrow> pystr \<Rightarrow> 's) \<Rightarrow> 's equation" where
  "eq_particle_count_from_radius body =
    \<lparr>eq_key = str ''particle_count_from_radius'',
     eq_name = str ''Atoms in spherical particle'',
     eq_variables = [str ''N'', (cp_rho # []), str ''r_part'', str ''M_molar'', str ''N_A''],
     eq_solve = solvers body (str ''particle_count_from_radius'')
       [str ''N'', str ''r_part'', (cp_rho # []), str ''M_molar'', str ''N_A'']\<rparr>"

definition eq_molarity :: "(pystr \<Rightarrow> pystr \<Rightarrow> 's) \<Rightarrow> 's equation" where
  "eq_molarity body =
    \<lparr>eq_key = str ''molarity'',
     eq_name = str ''Molarity'',
     eq_variables = [str ''c_m'', str ''n'', str ''V''],
     eq_solve = solvers body (str ''molarity'')
       [str ''c_m'', str ''n'', str ''V'']\<rparr>"

definition eq_boyle :: "(pystr \<Rightarrow> pystr \<Rightarrow> 's) \<Rightarrow> 's equation" where
  "eq_boyle body =
    \<lparr>eq_key = str ''boyle'',
     eq_name = (str ''Boyle'' @ cp_apostrophe # str ''s Law (isothermal)''),
     eq_variables = [str ''p1'', str ''v1'', str ''p2'', str ''v2''],
     eq_solve = solvers body (str ''boyle'')
       [str ''p1'', str ''v1'', str ''p2'', str ''v2'']\<rparr>"

definition eq_dalton_partial :: "(pystr \<Rightarrow> pystr \<Rightarrow> 's) \<Rightarrow> 's equation" where
  "eq_dalton_partial body =
    \<lparr>eq_key = str ''dalton_partial'',
     eq_name = (str ''Dalton'' @ cp_apostrophe # str ''s Law (partial pressure)''),
     eq_variables = [str ''p_i'', str ''y_i'', str ''p_total''],
     eq_solve = solvers body (str ''dalton_partial'')
       [str ''p_i'', str ''y_i'', str ''p_total'']\<rparr>"

definition eq_mole_fraction :: "(pystr \<Rightarrow> pystr \<Rightarrow> 's) \<Rightarrow> 's equation" where
  "eq_mole_fraction body =
    \<lparr>eq_key = str ''mole_fraction'',
     eq_name = str ''Mole Fraction'',
     eq_variables = [str ''y_i'', str ''n_i'', str ''n_total''],
     eq_solve = solvers body (str ''mole_fraction'')
       [str ''y_i'', str ''n_i'', str ''n_total'']\<rparr>"

definition eq_dalton_sum2 :: "(pystr \<Rightarrow> pystr \<Rightarrow> 's) \<Rightarrow> 's equation" where
  "eq_dalton_sum2 body =
    \<lparr>eq_key = str ''dalton_sum2'',
     eq_name = (str ''Dalton'' @ cp_apostrophe # str ''s Law (sum of partials, 2 components)''),
     eq_variables = [str ''p_total'', str ''pA'', str ''pB''],
     eq_solve = solvers body (str ''dalton_sum2'')
       [str ''p_total'', str ''pA'', str ''pB'']\<rparr>"

definition eq_dalton_sum3 :: "(pystr \<Rightarrow> pystr \<Rightarrow> 's) \<Rightarrow> 's equation" where
  "eq_dalton_sum3 body =
    \<lparr>eq_key = str ''dalton_sum3'',
     eq_name = (str ''Dalton'' @ cp_apostrophe # str ''s Law (sum of partials, 3 components)''),
     eq_variables = [str ''p_total'', str ''pA'', str ''pB'', str ''pC''],
     eq_solve = solvers body (str ''dalton_sum3'')
       [str ''p_total'', str ''pA'', str ''pB'', str ''pC'']\<rparr>"

definition eq_gibbs_standard :: "(pystr \<Rightarrow> pystr \<Rightarrow> 's) \<Rightarrow> 's equation" where
  "eq_gibbs_standard body =
    \<lparr>eq_key = str ''gibbs_standard'',
     eq_name = str ''Gibbs relation (standard)'',
     eq_variables = [(cp_Delta # str ''G'' @ cp_deg # str ''rxn''), (cp_Delta # str ''H'' @ cp_deg # str ''rxn''), str ''T'', (cp_Delta # str ''S'' @ cp_deg # str ''rxn'')],
     eq_solve = solvers body (str ''gibbs_standard'')
       [(cp_Delta # str ''G'' @ cp_deg # str ''rxn''), (cp_Delta # str ''H'' @ cp_deg # str ''rxn''), str ''T'', (cp_Delta # str ''S'' @ cp_deg # str ''rxn'')]\<rparr>"

definition eq_equilibrium_dg :: "(pystr \<Rightarrow> pystr \<Rightarrow> 's) \<Rightarrow> 's equation" where
  "eq_equilibrium_dg body =
    \<lparr>eq_key = str ''equilibrium_dg'',
     eq_name = (str ''Equilibrium '' @ cp_harrow # str '' Gibbs (standard)''),
     eq_variables = [(cp_Delta # str ''G'' @ cp_deg # str ''rxn''), str ''K'', str ''R'', str ''T''],
     eq_solve = solvers body (str ''equilibrium_dg'')
       [(cp_Delta # str ''G'' @ cp_deg # str ''rxn''), str ''K'']\<rparr>"

definition eq_rxn_enthalpy_from_formation :: "(pystr \<Rightarrow> pystr \<Rightarrow> 's) \<Rightarrow> 's equation" where
  "eq_rxn_enthalpy_from_formation body =
    \<lparr>eq_key = str ''rxn_enthalpy_from_formation'',
     eq_name = str ''Reaction enthalpy from formation data'',
     eq_variables = [(cp_Delta # str ''H'' @ cp_deg # str ''rxn''), str ''sum_Hf_prod'', str ''sum_Hf_react''],
     eq_solve = solvers body (str ''rxn_enthalpy_from_formation'')
       [(cp_Delta # str ''H'' @ cp_deg # str ''rxn''), str ''sum_Hf_prod'', str ''sum_Hf_react'']\<rparr>"

definition eq_rxn_entropy_from_S :: "(pystr \<Rightarrow> pystr \<Rightarrow> 's) \<Rightarrow> 's equation" where
  "eq_rxn_entropy_from_S body =
    \<lparr>eq_key = str ''rxn_entropy_from_S'',
     eq_name = str ''Reaction entropy from standard molar entropies'',
     eq_variables = [(cp_Delta # str ''S'' @ cp_deg # str ''rxn''), str ''sum_S_prod'', str ''sum_S_react''],
     eq_solve = solvers body (str ''rxn_entropy_from_S'')
       [(cp_Delta # str ''S'' @ cp_deg # str ''rxn''), str ''sum_S_prod'', str ''sum_S_react'']\<rparr>"

definition eq_rxn_gibbs_from_formation :: "(pystr \<Rightarrow> pystr \<Rightarrow> 's) \<Rightarrow> 's equation" where
  "eq_rxn_gibbs_from_formation body =
    \<lparr>eq_key = str ''rxn_gibbs_from_formation'',
     eq_name = str ''Reaction Gibbs from formation data'',
     eq_variables = [(cp_Delta # str ''G'' @ cp_deg # str ''rxn''), str ''sum_Gf_prod'', str ''sum_Gf_react''],
     eq_solve = solvers body (str ''rxn_gibbs_from_formation'')
       [(cp_Delta # str ''G'' @ cp_deg # str ''rxn''), str ''sum_Gf_prod'', str ''sum_Gf_react'']\<rparr>"

definition eq_heat_from_extent :: "(pystr \<Rightarrow> pystr \<Rightarrow> 's) \<Rightarrow> 's equation" where
  "eq_heat_from_extent body =
    \<lparr>eq_key = str ''heat_from_extent'',
     eq_name = str ''Heat from reaction extent'',
     eq_variables = [str ''q'', (cp_xi # []), (cp_Delta # str ''H'' @ cp_deg # str ''rxn'')],
     eq_solve = solvers body (str ''heat_from_extent'')
       [str ''q'', (cp_xi # []), (cp_Delta # str ''H'' @ cp_deg # str ''rxn'')]\<rparr>"

definition eq_extent_from_component :: "(pystr \<Rightarrow> pystr \<Rightarrow> 's) \<Rightarrow> 's equation" where
  "eq_extent_from_component body =
    \<lparr>eq_key = str ''extent_from_component'',
     eq_name = str ''Extent from component moles'',
     eq_variables = [(cp_xi # []), str ''n_i'', (cp_nu # str ''_i'')],
     eq_solve = solvers body (str ''extent_from_component'')
       [(cp_xi # []), str ''n_i'', (cp_nu # str ''_i'')]\<rparr>"

definition eq_vap_from_formation :: "(pystr \<Rightarrow> pystr \<Rightarrow> 's) \<Rightarrow> 's equation" where
  "eq_vap_from_formation body =
    \<lparr>eq_key = str ''vap_from_formation'',
     eq_name = str ''Enthalpy of vaporization from formation data'',
     eq_variables = [(cp_Delta # str ''H_vap''), (cp_Delta # str ''H'' @ cp_deg # str ''f_gas''), (cp_Delta # str ''H'' @ cp_deg # str ''f_liq'')],
     eq_solve = solvers body (str ''vap_from_formation'')
       [(cp_Delta # str ''H_vap''), (cp_Delta # str ''H'' @ cp_deg # str ''f_gas''), (cp_Delta # str ''H'' @ cp_deg # str ''f_liq'')]\<rparr>"

definition eq_enthalpy_scaling :: "(pystr \<Rightarrow> pystr \<Rightarrow> 's) \<Rightarrow> 's equation" where
  "eq_enthalpy_scaling body =
    \<lparr>eq_key = str ''enthalpy_scaling'',
     eq_name = str ''Scale reaction enthalpy by factor'',
     eq_variables = [(cp_Delta # str ''H'' @ cp_deg # str ''rxn_scaled''), (cp_Delta # str ''H'' @ cp_deg # str ''rxn''), str ''scale_n''],
     eq_solve = solvers body (str ''enthalpy_scaling'')
       [(cp_Delta # str ''H'' @ cp_deg # str ''rxn_scaled''), (cp_Delta # str ''H'' @ cp_deg # str ''rxn''), str ''scale_n'']\<rparr>"

definition eq_enthalpy_reverse :: "(pystr \<Rightarrow> pystr \<Rightarrow> 's) \<Rightarrow> 's equation" where
  "eq_enthalpy_reverse body =
    \<lparr>eq_key = str ''enthalpy_reverse'',
     eq_name = str ''Reverse reaction enthalpy'',
     eq_variables = [(cp_Delta # str ''H'' @ cp_deg # str ''rxn_rev''), (cp_Delta # str ''H'' @ cp_deg # str ''rxn'')],
     eq_solve = solvers body (str ''enthalpy_reverse'')
       [(cp_Delta # str ''H'' @ cp_deg # str ''rxn_rev''), (cp_Delta # str ''H'' @ cp_deg # str ''rxn'')]\<rparr>"

definition eq_combustion_energy :: "(pystr \<Rightarrow> pystr \<Rightarrow> 's) \<Rightarrow> 's equation" where
  "eq_combustion_energy body =
    \<lparr>eq_key = str ''combustion_energy'',
     eq_name = str ''Energy released by combustion'',
     eq_variables = [str ''q'', str ''n'', (cp_Delta # str ''G'' @ cp_deg # str ''rxn'')],
     eq_solve = solvers body (str ''combustion_energy'')
       [str ''q'', str ''n'', (cp_Delta # str ''G'' @ cp_deg # str ''rxn'')]\<rparr>"

definition eq_planck_hnu :: "(pystr \<Rightarrow> pystr \<Rightarrow> 's) \<Rightarrow> 's equation" where
  "eq_planck_hnu body =
    \<lparr>eq_key = str ''planck_hnu'',
     eq_name = str ''Photon energy from frequency'',
     eq_variables = [str ''E_ph'', str ''h_planck'', (cp_nu # str ''_freq'')],
     eq_solve = solvers body (str ''planck_hnu'')
       [str ''E_ph'', (cp_nu # str ''_freq''), str ''h_planck'']\<rparr>"

definition eq_wave_speed :: "(pystr \<Rightarrow> pystr \<Rightarrow> 's) \<Rightarrow> 's equation" where
  "eq_wave_speed body =
    \<lparr>eq_key = str ''wave_speed'',
     eq_name = str ''Wave speed relation'',
     eq_variables = [str ''c0'', (cp_lambda # []), (cp_nu # [])],
     eq_solve = solvers body (str ''wave_speed'')
       [str ''c0'', (cp_lambda # []), (cp_nu # [])]\<rparr>"

definition eq_planck_hc_over_lambda :: "(pystr \<Rightarrow> pystr \<Rightarrow> 's) \<Rightarrow> 's equation" where
  "eq_planck_hc_over_lambda body =
    \<lparr>eq_key = str ''planck_hc_over_lambda'',
     eq_name = str ''Photon energy from wavelength'',
     eq_variables = [str ''E_ph'', str ''h_planck'', str ''c0'', (cp_lambda # [])],
     eq_solve = solvers body (str ''planck_hc_over_lambda'')
       [str ''E_ph'', (cp_lambda # [])]\<rparr>"

definition eq_rydberg_lambda :: "(pystr \<Rightarrow> pystr \<Rightarrow> 's) \<Rightarrow> 's equation" where
  "eq_rydberg_lambda body =
    \<lparr>eq_key = str ''rydberg_lambda'',
     eq_name = str ''Hydrogen-like wavelength (Rydberg)'',
     eq_variables = [(cp_lambda # []), (str ''R'' @ cp_infty # []), str ''Z'', str ''n1'', str ''n2''],
     eq_solve = solvers body (str ''rydberg_lambda'')
       [(cp_lambda # [])]\<rparr>"

definition eq_bohr_transition :: "(pystr \<Rightarrow> pystr \<Rightarrow> 's) \<Rightarrow> 's equation" where
  "eq_bohr_transition body =
    \<lparr>eq_key = str ''bohr_transition'',
     eq_name = str ''Hydrogen-like transition energy (Bohr)'',
     eq_variables = [(cp_Delta # str ''E''), str ''Z'', str ''n1'', str ''n2'', str ''E_H''],
     eq_solve = solvers body (str ''bohr_transition'')
       [(cp_Delta # str ''E'')]\<rparr>"

definition eq_bragg :: "(pystr \<Rightarrow> pystr \<Rightarrow> 's) \<Rightarrow> 's equation" where
  "eq_bragg body =
    \<lparr>eq_key = str ''bragg'',
     eq_name = (str ''Bragg'' @ cp_rsquo # str ''s law''),
     eq_variables = [str ''n_bragg'', (cp_lambda # []), str ''d_spacing'', str ''theta''],
     eq_solve = solvers body (str ''bragg'')
       [str ''n_bragg'', (cp_lambda # []), str ''d_spacing'', str ''theta'']\<rparr>"

definition eq_bragg_2theta :: "(pystr \<Rightarrow> pystr \<Rightarrow> 's) \<Rightarrow> 's equation" where
  "eq_bragg_2theta body =
    \<lparr>eq_key = str ''bragg_2theta'',
     eq_name = (str ''Bragg with 2'' @ cp_theta # []),
     eq_variables = [str ''n_bragg'', (cp_lambda # []), str ''d_spacing'', str ''two_theta''],
     eq_solve = solvers body (str ''bragg_2theta'')
       [str ''d_spacing'', (cp_lambda # []), str ''n_bragg'', str ''two_theta'']\<rparr>"

definition eq_cubic_d_hkl :: "(pystr \<Rightarrow> pystr \<Rightarrow> 's) \<Rightarrow> 's equation" where
  "eq_cubic_d_hkl body =
    \<lparr>eq_key = str ''cubic_d_hkl'',
     eq_name = str ''Cubic: d from a and (hkl)'',
     eq_variables = [str ''d_spacing'', str ''a_cubic'', str ''h_mi'', str ''k_mi'', str ''l_mi''],
     eq_solve = solvers body (str ''cubic_d_hkl'')
       [str ''d_spacing'', str ''a_cubic'']\<rparr>"

definition eq_s_from_bragg :: "(pystr \<Rightarrow> pystr \<Rightarrow> 's) \<Rightarrow> 's equation" where
  "eq_s_from_bragg body =
    \<lparr>eq_key = str ''s_from_bragg'',
     eq_name = str ''Reciprocal spacing s from Bragg'',
     eq_variables = [str ''s_recip'', (cp_lambda # []), str ''theta''],
     eq_solve = solvers body (str ''s_from_bragg'')
       [str ''s_recip'', str ''theta'', (cp_lambda # [])]\<rparr>"

definition eq_q_from_bragg :: "(pystr \<Rightarrow> pystr \<Rightarrow> 's) \<Rightarrow> 's equation" where
  "eq_q_from_bragg body =
    \<lparr>eq_key = str ''q_from_bragg'',
     eq_name = str ''Scattering vector q'',
     eq_variables = [str ''q_scat'', (cp_lambda # []), str ''theta''],
     eq_solve = solvers body (str ''q_from_bragg'')
       [str ''q_scat'', str ''theta'', (cp_lambda # [])]\<rparr>"

definition eq_q_s_d_links :: "(pystr \<Rightarrow> pystr \<Rightarrow> 's) \<Rightarrow> 's equation" where
  "eq_q_s_d_links body =
    \<lparr>eq_key = str ''q_s_d_links'',
     eq_name = str ''Links: q, s, d'',
     eq_variables = [str ''q_scat'', str ''s_recip'', str ''d_spacing''],
     eq_solve = solvers body (str ''q_s_d_links'')
       [str ''s_recip'', str ''q_scat'', str ''d_spacing'']\<rparr>"

definition eq_raoult_2comp :: "(pystr \<Rightarrow> pystr \<Rightarrow> 's) \<Rightarrow> 's equation" where
  "eq_raoult_2comp body =
    \<lparr>eq_key = str ''raoult_2comp'',
     eq_name = (str ''Raoult'' @ cp_rsquo # str ''s law (2 components)''),
     eq_variables = [str ''p_i'', str ''x_i_liq'', str ''P_sat_i'', str ''P_vap_total''],
     eq_solve = solvers body (str ''raoult_2comp'')
       [str ''p_i'', str ''x_i_liq'', str ''P_sat_i'', str ''P_vap_total'']\<rparr>"

definition eq_henry_px :: "(pystr \<Rightarrow> pystr \<Rightarrow> 's) \<Rightarrow> 's equation" where
  "eq_henry_px body =
    \<lparr>eq_key = str ''henry_px'',
     eq_name = (str ''Henry: p = kH'' @ cp_middot # str ''x''),
     eq_variables = [str ''p'', str ''kH_Px'', str ''x_i_liq''],
     eq_solve = solvers body (str ''henry_px'')
       [str ''p'', str ''kH_Px'', str ''x_i_liq'']\<rparr>"

definition eq_henry_cp :: "(pystr \<Rightarrow> pystr \<Rightarrow> 's) \<Rightarrow> 's equation" where
  "eq_henry_cp body =
    \<lparr>eq_key = str ''henry_cp'',
     eq_name = (str ''Henry: c = kH'' @ cp_middot # str ''p''),
     eq_variables = [str ''c_m'', str ''kH_cP'', str ''p''],
     eq_solve = solvers body (str ''henry_cp'')
       [str ''c_m'', str ''kH_cP'', str ''p'']\<rparr>"

definition eq_osmotic_pressure :: "(pystr \<Rightarrow> pystr \<Rightarrow> 's) \<Rightarrow> 's equation" where
  "eq_osmotic_pressure body =
    \<lparr>eq_key = str ''osmotic_pressure'',
     eq_name = (str ''Osmotic pressure (van '' @ cp_rsquo # str ''t Hoff)''),
     eq_variables = [(cp_pi # str ''_osm''), str ''i_vH'', str ''c_m'', str ''R'', str ''T''],
     eq_solve = solvers body (str ''osmotic_pressure'')
       [(cp_pi # str ''_osm''), str ''i_vH'', str ''c_m'']\<rparr>"

definition eq_boiling_elevation :: "(pystr \<Rightarrow> pystr \<Rightarrow> 's) \<Rightarrow> 's equation" where
  "eq_boiling_elevation body =
    \<lparr>eq_key = str ''boiling_elevation'',
     eq_name = str ''Boiling-point elevation'',
     eq_variables = [(cp_Delta # str ''Tb''), str ''i_vH'', str ''Kb'', str ''m_molal''],
     eq_solve = solvers body (str ''boiling_elevation'')
       [(cp_Delta # str ''Tb''), str ''i_vH'', str ''Kb'', str ''m_molal'']\<rparr>"

definition eq_freezing_depression :: "(pystr \<Rightarrow> pystr \<Rightarrow> 's) \<Rightarrow> 's equation" where
  "eq_freezing_depression body =
    \<lparr>eq_key = str ''freezing_depression'',
     eq_name = str ''Freezing-point depression'',
     eq_variables = [(cp_Delta # str ''Tf''), str ''i_vH'', str ''Kf'', str ''m_molal''],
     eq_solve = solvers body (str ''freezing_depression'')
       [(cp_Delta # str ''Tf''), str ''i_vH'', str ''Kf'', str ''m_molal'']\<rparr>"

definition eq_total_ion_conc :: "(pystr \<Rightarrow> pystr \<Rightarrow> 's) \<Rightarrow> 's equation" where
  "eq_total_ion_conc body =
    \<lparr>eq_key = str ''total_ion_conc'',
     eq_name = str ''Total ion concentration (via i)'',
     eq_variables = [str ''c_total_ions'', str ''i_vH'', str ''c_m''],
     eq_solve = solvers body (str ''total_ion_conc'')
       [str ''c_total_ions'', str ''i_vH'', str ''c_m'']\<rparr>"

definition EQUATIONS :: "(pystr \<Rightarrow> pystr \<Rightarrow> 's) \<Rightarrow> 's equation list" where
  "EQUATIONS body =
   [eq_specific_heat body, eq_ideal_gas_law body, eq_density body, eq_sphere_volume body,
    eq_mass_moles_molar_mass body, eq_particle_count body,
    eq_particle_count_from_radius body, eq_molarity body, eq_boyle body,
    eq_dalton_partial body, eq_mole_fraction body, eq_dalton_sum2 body,
    eq_dalton_sum3 body, eq_gibbs_standard body, eq_equilibrium_dg body,
    eq_rxn_enthalpy_from_formation body, eq_rxn_entropy_from_S body,
    eq_rxn_gibbs_from_formation body, eq_heat_from_extent body,
    eq_extent_from_component body, eq_vap_from_formation body, eq_enthalpy_scaling body,
    eq_enthalpy_reverse body, eq_combustion_energy body, eq_planck_hnu body,
    eq_wave_speed body, eq_planck_hc_over_lambda body, eq_rydberg_lambda body,
    eq_bohr_transition body, eq_bragg body, eq_bragg_2theta body, eq_cubic_d_hkl body,
    eq_s_from_bragg body, eq_q_from_bragg body, eq_q_s_d_links body, eq_raoult_2comp body,
    eq_henry_px body, eq_henry_cp body, eq_osmotic_pressure body,
    eq_boiling_elevation body, eq_freezing_depression body, eq_total_ion_conc body]"

section \<open>Equation matching and solving (\<^verbatim>\<open>chem_helper.py\<close>)\<close>


text \<open>
  \<^verbatim>\<open>
  def find_applicable_equations(known, min_overlap=1):
      matches = []
      known_keys = set(known.keys())
      for eq in EQUATIONS:
          vars_set = set(eq["variables"])
          overlap_user = len(vars_set & known_keys)
          overlap_consts = sum(1 for v in vars_set if v in CONSTANTS and v not in known_keys)
          overlap_total = overlap_user + overlap_consts
          missing = [v for v in eq["variables"] if v not in known_keys and v not in CONSTANTS]
          if overlap_total >= min_overlap:
              matches.append((eq, missing, overlap_total))
      def is_solvable(eq, missing):
          return 1 if (len(missing) == 1 and missing[0] in eq.get("solve", {})) else 0
      matches.sort(key=lambda item: (-is_solvable(item[0], item[1]), -item[2], item[0]["name"].lower()))
      return [(eq, missing) for (eq, missing, _overlap) in matches]
  \<close>
  The module-level list \<^verbatim>\<open>EQUATIONS\<close> is the explicit argument \<open>bank\<close>. \<^verbatim>\<open>list.sort\<close> is
  stable and sorts by the key tuple in ascending order; \<open>sort_key\<close> is the stable insertion
  sort, and tuples and strings are compared lexicographically as in Python.
\<close>

definition overlap_user :: "'s equation \<Rightarrow> pystr set \<Rightarrow> int" where
  "overlap_user eq known_keys = int (card (set (eq_variables eq) \<inter> known_keys))"

definition overlap_consts :: "'s equation \<Rightarrow> pystr set \<Rightarrow> int" where
  "overlap_consts eq known_keys =
     int (card {v \<in> set (eq_variables eq). v \<in> set (dict_keys CONSTANTS) \<and> v \<notin> known_keys})"

definition overlap_total :: "'s equation \<Rightarrow> pystr set \<Rightarrow> int" where
  "overlap_total eq known_keys = overlap_user eq known_keys + overlap_consts eq known_keys"

definition missing_vars :: "'s equation \<Rightarrow> pystr set \<Rightarrow> pystr list" where
  "missing_vars eq known_keys =
     filter (\<lambda>v. v \<notin> known_keys \<and> v \<notin> set (dict_keys CONSTANTS)) (eq_variables eq)"

definition is_solvable :: "'s equation \<Rightarrow> pystr list \<Rightarrow> int" where
  "is_solvable eq missing =
     (case missing of
        [m] \<Rightarrow> if m \<in> set (dict_keys (eq_solve eq)) then 1 else 0
      | _ \<Rightarrow> 0)"

definition collect_matches ::
  "'s equation list \<Rightarrow> pystr set \<Rightarrow> int \<Rightarrow> ('s equation \<times> pystr list \<times> int) list" where
  "collect_matches bank known_keys min_overlap =
     concat (map (\<lambda>eq. if overlap_total eq known_keys \<ge> min_overlap
                         then [(eq, missing_vars eq known_keys, overlap_total eq known_keys)]
                         else []) bank)"

definition match_key :: "'s equation \<times> pystr list \<times> int \<Rightarrow> int \<times> int \<times> pystr" where
  "match_key item =
     (case item of (eq, missing, overlap) \<Rightarrow>
        (- is_solvable eq missing, - overlap, lower (eq_name eq)))"

definition find_applicable_equations ::
  "'s equation list \<Rightarrow> (pystr \<times> 'v) list \<Rightarrow> int \<Rightarrow> ('s equation \<times> pystr list) list" where
  "find_applicable_equations bank known min_overlap =
     (let known_keys = set (dict_keys known);
          matches = collect_matches bank known_keys min_overlap
      in map (\<lambda>(eq, missing, ov). (eq, missing)) (sort_key match_key matches))"

text \<open>
  The ordering the specification words: the display name itself, compared
  lexicographically, in place of the lowered name. (A definition after the
  specification, to be compared with \<open>match_key\<close>.)
\<close>

definition spec_result_key :: "pystr set \<Rightarrow> 's equation \<times> pystr list \<Rightarrow> int \<times> int \<times> pystr" where
  "spec_result_key known_keys r =
     (case r of (eq, missing) \<Rightarrow>
        (- is_solvable eq missing, - overlap_total eq known_keys, eq_name eq))"

text \<open>The same key with the lowered name, as the code sorts.\<close>

definition result_key :: "pystr set \<Rightarrow> 's equation \<times> pystr list \<Rightarrow> int \<times> int \<times> pystr" where
  "result_key known_keys r =
     (case r of (eq, missing) \<Rightarrow>
        (- is_solvable eq missing, - overlap_total eq known_keys, lower (eq_name eq)))"










text \<open>
  Two sets of known variables used below on the bank: reaction data for which the matcher
  returns four equations, and colligative data for which it returns three. (The matcher
  reads the keys of \<^verbatim>\<open>known\<close> only.)
\<close>

definition formation_known :: "(pystr \<times> unit) list" where
  "formation_known =
     [((cp_Delta # str ''H'' @ cp_deg # str ''rxn''), ()),
      (str ''sum_Hf_prod'', ()),
      ((cp_Delta # str ''G'' @ cp_deg # str ''rxn''), ()),
      (str ''sum_Gf_prod'', ())]"

definition colligative_known :: "(pystr \<times> unit) list" where
  "colligative_known =
     [(str ''Kb'', ()),
      (str ''c_m'', ()),
      (str ''i_vH'', ()),
      ((cp_Delta # str ''Tb''), ())]"

section \<open>Regular expressions (\<^verbatim>\<open>re\<close>)\<close>

text \<open>
  The patterns of the source are kept as data and run by a backtracking matcher with the
  priorities of \<^verbatim>\<open>re\<close>: \<open>ms r s\<close> lists every way \<open>r\<close> matches at state \<open>s\<close>, in the order in
  which \<^verbatim>\<open>re\<close> tries them (a greedy repetition tries one more iteration first, an
  alternation its left branch first), so the head of the list is the match \<^verbatim>\<open>re\<close> returns.
  A state is the position in the subject, the rest of the subject, and the groups
  captured so far (the latest capture of a group first).
  \<^verbatim>\<open>\d\<close> is the ASCII digits here (\<^verbatim>\<open>re\<close> also takes the decimal digits of other scripts),
  and \<^verbatim>\<open>$\<close> matches at the end of the subject or before a final newline, as in \<^verbatim>\<open>re\<close>.
\<close>

datatype re =
    Chr nat
  | Cls "nat \<Rightarrow> bool"
  | Seq re re
  | Alt re re
  | Opt re
  | Star re
  | Grp nat re
  | Bol
  | Eol

type_synonym mstate = "nat \<times> pystr \<times> (nat \<times> pystr) list"

text \<open>
  Greedy repetition of a matcher \<open>f\<close>: an iteration that consumes nothing is not repeated.
  The second argument bounds the number of iterations: it is the rest of the subject, and
  every iteration consumes at least one character of it.
\<close>

primrec star :: "(mstate \<Rightarrow> mstate list) \<Rightarrow> pystr \<Rightarrow> mstate \<Rightarrow> mstate list" where
  "star f [] s = [s]"
| "star f (x # fuel) s =
     concat (map (\<lambda>s'. if length (fst (snd s')) < length (fst (snd s)) then star f fuel s' else [])
               (f s)) @ [s]"

fun ms :: "re \<Rightarrow> mstate \<Rightarrow> mstate list" where
  "ms (Chr c) (p, r, g) = (case r of [] \<Rightarrow> [] | x # xs \<Rightarrow> if x = c then [(Suc p, xs, g)] else [])"
| "ms (Cls P) (p, r, g) = (case r of [] \<Rightarrow> [] | x # xs \<Rightarrow> if P x then [(Suc p, xs, g)] else [])"
| "ms (Seq a b) s = concat (map (ms b) (ms a s))"
| "ms (Alt a b) s = ms a s @ ms b s"
| "ms (Opt a) s = ms a s @ [s]"
| "ms (Star a) s = star (ms a) (fst (snd s)) s"
| "ms (Grp i a) (p, r, g) =
     map (\<lambda>(p', r', g'). (p', r', (i, take (p' - p) r) # g')) (ms a (p, r, g))"
| "ms Bol (p, r, g) = (if p = 0 then [(p, r, g)] else [])"
| "ms Eol (p, r, g) = (if r = [] \<or> r = [10] then [(p, r, g)] else [])"

definition Plus :: "re \<Rightarrow> re" where
  "Plus a = Seq a (Star a)"

fun seqs :: "re list \<Rightarrow> re" where
  "seqs [] = Opt (Seq Bol Bol)"
| "seqs [a] = a"
| "seqs (a # as) = Seq a (seqs as)"

definition re_match :: "re \<Rightarrow> pystr \<Rightarrow> (nat \<times> pystr) list option" where
  \<comment> \<open>\<^verbatim>\<open>re.match(pattern, s)\<close>: the groups of the first match at position 0\<close>
  "re_match r s = (case ms r (0, s, []) of [] \<Rightarrow> None | (p, rest, g) # _ \<Rightarrow> Some g)"

definition group :: "(nat \<times> pystr) list \<Rightarrow> nat \<Rightarrow> pystr option" where
  \<comment> \<open>\<^verbatim>\<open>m.group(i)\<close>, \<open>None\<close> for a group that took no part in the match\<close>
  "group g i = map_of g i"

definition is_digit :: "nat \<Rightarrow> bool" where
  "is_digit c \<longleftrightarrow> 48 \<le> c \<and> c \<le> 57"

definition is_ascii_alpha :: "nat \<Rightarrow> bool" where
  "is_ascii_alpha c \<longleftrightarrow> (65 \<le> c \<and> c \<le> 90) \<or> (97 \<le> c \<and> c \<le> 122)"

section \<open>The reaction parser (\<^verbatim>\<open>gui.py\<close>, \<^verbatim>\<open>_parse_reaction\<close>)\<close>

text \<open>
  String helpers: \<^verbatim>\<open>s.replace(c, new)\<close> for a single character \<open>c\<close>, \<^verbatim>\<open>s.split(c)\<close> for a single
  character, and \<^verbatim>\<open>s.split(sep, 1)\<close>, which cuts at the first occurrence of \<open>sep\<close>.
\<close>

definition replace_char :: "nat \<Rightarrow> pystr \<Rightarrow> pystr \<Rightarrow> pystr" where
  "replace_char c new s = concat (map (\<lambda>x. if x = c then new else [x]) s)"

fun split_char :: "nat \<Rightarrow> pystr \<Rightarrow> pystr list" where
  "split_char c [] = [[]]"
| "split_char c (x # xs) =
     (if x = c then [] # split_char c xs
      else (case split_char c xs of
              [] \<Rightarrow> [[x]]
            | t # ts \<Rightarrow> (x # t) # ts))"

fun split_once :: "pystr \<Rightarrow> pystr \<Rightarrow> (pystr \<times> pystr) option" where
  "split_once sep [] = (if sep = [] then Some ([], []) else None)"
| "split_once sep (x # xs) =
     (if startswith (x # xs) sep then Some ([], drop (length sep) (x # xs))
      else (case split_once sep xs of
              None \<Rightarrow> None
            | Some (before, after) \<Rightarrow> Some (x # before, after)))"

text \<open>
  \<^verbatim>\<open>^\s*(\d*\.?\d*)\s*([A-Za-z0-9()^+\-\<cdot>_]+)\s*$\<close>: an optional number, then the species,
  which is made of letters, digits, parentheses and the signs of the class.
\<close>

definition is_species_char :: "nat \<Rightarrow> bool" where
  "is_species_char c \<longleftrightarrow>
     is_ascii_alpha c \<or> is_digit c \<or> c = 40 \<or> c = 41 \<or> c = 94 \<or> c = 43 \<or> c = 45 \<or>
     c = cp_middot \<or> c = 95"

definition term_re :: re where
  "term_re =
     seqs [Bol, Star (Cls is_space),
           Grp 1 (seqs [Star (Cls is_digit), Opt (Chr 46), Star (Cls is_digit)]),
           Star (Cls is_space),
           Grp 2 (Plus (Cls is_species_char)),
           Star (Cls is_space), Eol]"

text \<open>
  \<^verbatim>\<open>float(coef)\<close> for the strings the first group can hold, digits with at most one point:
  the float nearest to the decimal number, and \<^verbatim>\<open>ValueError\<close> for the lone point (and for
  the other strings, which the group never holds).
\<close>

definition digits_value :: "pystr \<Rightarrow> nat" where
  "digits_value ds = foldl (\<lambda>n d. 10 * n + (d - 48)) 0 ds"

definition float_error :: "pystr \<Rightarrow> exn" where
  "float_error coef =
     ValueError (str ''could not convert string to float: '' @ [39] @ coef @ [39])"

definition py_float :: "pystr \<Rightarrow> exn + double" where
  "py_float coef =
     (let ip = takeWhile is_digit coef; rest = dropWhile is_digit coef in
      case rest of
        [] \<Rightarrow> if ip = [] then Inl (float_error coef) else Inr (round64 (real (digits_value ip)))
      | c # fp \<Rightarrow>
          if c = 46 \<and> list_all is_digit fp \<and> (ip \<noteq> [] \<or> fp \<noteq> [])
          then Inr (round64 (real (digits_value (ip @ fp)) / 10 ^ length fp))
          else Inl (float_error coef))"

text \<open>
  \<^verbatim>\<open>
  def parse_side(side, sign):
      species = {}
      if not side: return species
      for term in side.split("+"):
          term = term.strip()
          if not term: continue
          m = re.match(r"^\s*(\d*\.?\d*)\s*([A-Za-z0-9()^+\-\<cdot>_]+)\s*$", term)
          if not m: coef, sp = "", term
          else:     coef, sp = m.group(1), m.group(2)
          nu = float(coef) if coef else 1.0
          species[sp] = species.get(sp, 0.0) + sign * nu
      return species
  \<close>
\<close>

definition side_terms :: "pystr \<Rightarrow> pystr list" where
  \<comment> \<open>the stripped, non-empty terms of a side\<close>
  "side_terms side =
     (if side = [] then [] else filter (\<lambda>t. t \<noteq> []) (map strip (split_char 43 side)))"

definition parse_term :: "pystr \<Rightarrow> pystr \<times> pystr" where
  \<comment> \<open>\<^verbatim>\<open>(coef, sp)\<close> of a term\<close>
  "parse_term trm =
     (case re_match term_re trm of
        None \<Rightarrow> ([], trm)
      | Some g \<Rightarrow> (case (group g 1, group g 2) of
                     (Some coef, Some sp) \<Rightarrow> (coef, sp)
                   | _ \<Rightarrow> ([], trm)))"

definition term_nu :: "pystr \<Rightarrow> exn + double" where
  "term_nu coef = (if coef \<noteq> [] then py_float coef else Inr (Fin 1))"

definition dict_get_or :: "('k \<times> 'v) list \<Rightarrow> 'k \<Rightarrow> 'v \<Rightarrow> 'v" where
  \<comment> \<open>\<^verbatim>\<open>d.get(k, default)\<close>\<close>
  "dict_get_or d k dflt = (case dict_get d k of None \<Rightarrow> dflt | Some v \<Rightarrow> v)"

fun side_loop :: "int \<Rightarrow> pystr list \<Rightarrow> (pystr \<times> double) list \<Rightarrow> exn + (pystr \<times> double) list" where
  "side_loop sign [] species = Inr species"
| "side_loop sign (trm # terms) species =
     (case parse_term trm of (coef, sp) \<Rightarrow>
        (case term_nu coef of
           Inl e \<Rightarrow> Inl e
         | Inr nu \<Rightarrow>
             side_loop sign terms
               (dict_set sp (dadd (dict_get_or species sp (Fin 0)) (dmul (Fin (of_int sign)) nu))
                  species)))"

definition parse_side :: "pystr \<Rightarrow> int \<Rightarrow> exn + (pystr \<times> double) list" where
  "parse_side side sign = side_loop sign (side_terms side) []"

text \<open>
  \<^verbatim>\<open>
  def _parse_reaction(self, s):
      s = s.replace("\<rightleftharpoons>", "->").replace("\<leftrightarrow>", "->").replace("\<longleftrightarrow>", "->").replace("=", "->")
      if "->" not in s:
          raise ValueError("Use an arrow like '->' or '\<rightleftharpoons>' between sides.")
      L, R = [part.strip() for part in s.split("->", 1)]
      ...
      st = {}
      for k, v in parse_side(L, -1).items(): st[k] = st.get(k,0)+v
      for k, v in parse_side(R, +1).items(): st[k] = st.get(k,0)+v
      if all(v>=0 for v in st.values()) or all(v<=0 for v in st.values()):
          raise ValueError("Reaction needs reactants and products on different sides.")
      return st
  \<close>
\<close>

definition arrow :: pystr where
  "arrow = str ''->''"

definition normalize_arrows :: "pystr \<Rightarrow> pystr" where
  "normalize_arrows s =
     replace_char 61 arrow (replace_char cp_long_harrow arrow
       (replace_char cp_harrow arrow (replace_char cp_equilibrium arrow s)))"

definition no_arrow_error :: exn where
  "no_arrow_error =
     ValueError (str ''Use an arrow like '' @ [39] @ str ''->'' @ [39] @ str '' or '' @ [39] @
       [cp_equilibrium] @ [39] @ str '' between sides.'')"

definition one_sided_error :: exn where
  "one_sided_error = ValueError (str ''Reaction needs reactants and products on different sides.'')"

definition merge_side :: "(pystr \<times> double) list \<Rightarrow> (pystr \<times> double) list \<Rightarrow> (pystr \<times> double) list" where
  \<comment> \<open>\<^verbatim>\<open>for k, v in side.items(): st[k] = st.get(k,0)+v\<close>\<close>
  "merge_side side st = fold (\<lambda>(k, v) d. dict_set k (dadd (dict_get_or d k (Fin 0)) v) d) side st"

definition one_signed :: "(pystr \<times> double) list \<Rightarrow> bool" where
  "one_signed st \<longleftrightarrow>
     list_all (\<lambda>v. dle (Fin 0) v) (dict_values st) \<or> list_all (\<lambda>v. dle v (Fin 0)) (dict_values st)"

definition parse_reaction :: "pystr \<Rightarrow> exn + (pystr \<times> double) list" where
  "parse_reaction text =
     (case split_once arrow (normalize_arrows text) of
        None \<Rightarrow> Inl no_arrow_error
      | Some (before, after) \<Rightarrow>
          (case parse_side (strip before) (- 1) of
             Inl e \<Rightarrow> Inl e
           | Inr left \<Rightarrow>
               (case parse_side (strip after) 1 of
                  Inl e \<Rightarrow> Inl e
                | Inr right \<Rightarrow>
                    (let st = merge_side right (merge_side left []) in
                     if one_signed st then Inl one_sided_error else Inr st))))"

section \<open>Evaluating the registry\<close>

text \<open>
  Tables for the code points of printable ASCII and of the registry, so that string
  literals and \<open>lower\<close> evaluate in one rewrite step per character.
\<close>

lemma of_char_tab:
  "of_char (CHR '' '') = (32::nat)"
  "of_char (CHR ''!'') = (33::nat)"
  "of_char (CHR ''#'') = (35::nat)"
  "of_char (CHR ''$'') = (36::nat)"
  "of_char (CHR ''%'') = (37::nat)"
  "of_char (CHR ''&'') = (38::nat)"
  "of_char (CHR ''('') = (40::nat)"
  "of_char (CHR '')'') = (41::nat)"
  "of_char (CHR ''*'') = (42::nat)"
  "of_char (CHR ''+'') = (43::nat)"
  "of_char (CHR '','') = (44::nat)"
  "of_char (CHR ''-'') = (45::nat)"
  "of_char (CHR ''.'') = (46::nat)"
  "of_char (CHR ''/'') = (47::nat)"
  "of_char (CHR ''0'') = (48::nat)"
  "of_char (CHR ''1'') = (49::nat)"
  "of_char (CHR ''2'') = (50::nat)"
  "of_char (CHR ''3'') = (51::nat)"
  "of_char (CHR ''4'') = (52::nat)"
  "of_char (CHR ''5'') = (53::nat)"
  "of_char (CHR ''6'') = (54::nat)"
  "of_char (CHR ''7'') = (55::nat)"
  "of_char (CHR ''8'') = (56::nat)"
  "of_char (CHR ''9'') = (57::nat)"
  "of_char (CHR '':'') = (58::nat)"
  "of_char (CHR '';'') = (59::nat)"
  "of_char (CHR ''<'') = (60::nat)"
  "of_char (CHR ''='') = (61::nat)"
  "of_char (CHR ''>'') = (62::nat)"
  "of_char (CHR ''?'') = (63::nat)"
  "of_char (CHR ''@'') = (64::nat)"
  "of_char (CHR ''A'') = (65::nat)"
  "of_char (CHR ''B'') = (66::nat)"
  "of_char (CHR ''C'') = (67::nat)"
  "of_char (CHR ''D'') = (68::nat)"
  "of_char (CHR ''E'') = (69::nat)"
  "of_char (CHR ''F'') = (70::nat)"
  "of_char (CHR ''G'') = (71::nat)"
  "of_char (CHR ''H'') = (72::nat)"
  "of_char (CHR ''I'') = (73::nat)"
  "of_char (CHR ''J'') = (74::nat)"
  "of_char (CHR ''K'') = (75::nat)"
  "of_char (CHR ''L'') = (76::nat)"
  "of_char (CHR ''M'') = (77::nat)"
  "of_char (CHR ''N'') = (78::nat)"
  "of_char (CHR ''O'') = (79::nat)"
  "of_char (CHR ''P'') = (80::nat)"
  "of_char (CHR ''Q'') = (81::nat)"
  "of_char (CHR ''R'') = (82::nat)"
  "of_char (CHR ''S'') = (83::nat)"
  "of_char (CHR ''T'') = (84::nat)"
  "of_char (CHR ''U'') = (85::nat)"
  "of_char (CHR ''V'') = (86::nat)"
  "of_char (CHR ''W'') = (87::nat)"
  "of_char (CHR ''X'') = (88::nat)"
  "of_char (CHR ''Y'') = (89::nat)"
  "of_char (CHR ''Z'') = (90::nat)"
  "of_char (CHR ''['') = (91::nat)"
  "of_char (CHR '']'') = (93::nat)"
  "of_char (CHR ''^'') = (94::nat)"
  "of_char (CHR ''_'') = (95::nat)"
  "of_char (CHR ''`'') = (96::nat)"
  "of_char (CHR ''a'') = (97::nat)"
  "of_char (CHR ''b'') = (98::nat)"
  "of_char (CHR ''c'') = (99::nat)"
  "of_char (CHR ''d'') = (100::nat)"
  "of_char (CHR ''e'') = (101::nat)"
  "of_char (CHR ''f'') = (102::nat)"
  "of_char (CHR ''g'') = (103::nat)"
  "of_char (CHR ''h'') = (104::nat)"
  "of_char (CHR ''i'') = (105::nat)"
  "of_char (CHR ''j'') = (106::nat)"
  "of_char (CHR ''k'') = (107::nat)"
  "of_char (CHR ''l'') = (108::nat)"
  "of_char (CHR ''m'') = (109::nat)"
  "of_char (CHR ''n'') = (110::nat)"
  "of_char (CHR ''o'') = (111::nat)"
  "of_char (CHR ''p'') = (112::nat)"
  "of_char (CHR ''q'') = (113::nat)"
  "of_char (CHR ''r'') = (114::nat)"
  "of_char (CHR ''s'') = (115::nat)"
  "of_char (CHR ''t'') = (116::nat)"
  "of_char (CHR ''u'') = (117::nat)"
  "of_char (CHR ''v'') = (118::nat)"
  "of_char (CHR ''w'') = (119::nat)"
  "of_char (CHR ''x'') = (120::nat)"
  "of_char (CHR ''y'') = (121::nat)"
  "of_char (CHR ''z'') = (122::nat)"
  "of_char (CHR ''{'') = (123::nat)"
  "of_char (CHR ''|'') = (124::nat)"
  "of_char (CHR ''}'') = (125::nat)"
  "of_char (CHR ''~'') = (126::nat)"
  by simp_all


lemma lower_cp_tab:
  "lower_cp 32 = 32"
  "lower_cp 33 = 33"
  "lower_cp 34 = 34"
  "lower_cp 35 = 35"
  "lower_cp 36 = 36"
  "lower_cp 37 = 37"
  "lower_cp 38 = 38"
  "lower_cp 39 = 39"
  "lower_cp 40 = 40"
  "lower_cp 41 = 41"
  "lower_cp 42 = 42"
  "lower_cp 43 = 43"
  "lower_cp 44 = 44"
  "lower_cp 45 = 45"
  "lower_cp 46 = 46"
  "lower_cp 47 = 47"
  "lower_cp 48 = 48"
  "lower_cp 49 = 49"
  "lower_cp 50 = 50"
  "lower_cp 51 = 51"
  "lower_cp 52 = 52"
  "lower_cp 53 = 53"
  "lower_cp 54 = 54"
  "lower_cp 55 = 55"
  "lower_cp 56 = 56"
  "lower_cp 57 = 57"
  "lower_cp 58 = 58"
  "lower_cp 59 = 59"
  "lower_cp 60 = 60"
  "lower_cp 61 = 61"
  "lower_cp 62 = 62"
  "lower_cp 63 = 63"
  "lower_cp 64 = 64"
  "lower_cp 65 = 97"
  "lower_cp 66 = 98"
  "lower_cp 67 = 99"
  "lower_cp 68 = 100"
  "lower_cp 69 = 101"
  "lower_cp 70 = 102"
  "lower_cp 71 = 103"
  "lower_cp 72 = 104"
  "lower_cp 73 = 105"
  "lower_cp 74 = 106"
  "lower_cp 75 = 107"
  "lower_cp 76 = 108"
  "lower_cp 77 = 109"
  "lower_cp 78 = 110"
  "lower_cp 79 = 111"
  "lower_cp 80 = 112"
  "lower_cp 81 = 113"
  "lower_cp 82 = 114"
  "lower_cp 83 = 115"
  "lower_cp 84 = 116"
  "lower_cp 85 = 117"
  "lower_cp 86 = 118"
  "lower_cp 87 = 119"
  "lower_cp 88 = 120"
  "lower_cp 89 = 121"
  "lower_cp 90 = 122"
  "lower_cp 91 = 91"
  "lower_cp 92 = 92"
  "lower_cp 93 = 93"
  "lower_cp 94 = 94"
  "lower_cp 95 = 95"
  "lower_cp 96 = 96"
  "lower_cp 97 = 97"
  "lower_cp 98 = 98"
  "lower_cp 99 = 99"
  "lower_cp 100 = 100"
  "lower_cp 101 = 101"
  "lower_cp 102 = 102"
  "lower_cp 103 = 103"
  "lower_cp 104 = 104"
  "lower_cp 105 = 105"
  "lower_cp 106 = 106"
  "lower_cp 107 = 107"
  "lower_cp 108 = 108"
  "lower_cp 109 = 109"
  "lower_cp 110 = 110"
  "lower_cp 111 = 111"
  "lower_cp 112 = 112"
  "lower_cp 113 = 113"
  "lower_cp 114 = 114"
  "lower_cp 115 = 115"
  "lower_cp 116 = 116"
  "lower_cp 117 = 117"
  "lower_cp 118 = 118"
  "lower_cp 119 = 119"
  "lower_cp 120 = 120"
  "lower_cp 121 = 121"
  "lower_cp 122 = 122"
  "lower_cp 123 = 123"
  "lower_cp 124 = 124"
  "lower_cp 125 = 125"
  "lower_cp 126 = 126"
  "lower_cp 176 = 176"
  "lower_cp 179 = 179"
  "lower_cp 183 = 183"
  "lower_cp 185 = 185"
  "lower_cp 197 = 229"
  "lower_cp 916 = 948"
  "lower_cp 931 = 963"
  "lower_cp 945 = 945"
  "lower_cp 952 = 952"
  "lower_cp 955 = 955"
  "lower_cp 957 = 957"
  "lower_cp 958 = 958"
  "lower_cp 960 = 960"
  "lower_cp 961 = 961"
  "lower_cp 1009 = 1009"
  "lower_cp 8211 = 8211"
  "lower_cp 8217 = 8217"
  "lower_cp 8315 = 8315"
  "lower_cp 8596 = 8596"
  "lower_cp 8734 = 8734"
  by (simp_all add: lower_cp_def)

lemmas VARS_defs = VARIABLES_0_def VARIABLES_1_def VARIABLES_2_def VARIABLES_3_def VARIABLES_4_def VARIABLES_5_def
        VARIABLES_6_def VARIABLES_7_def VARIABLES_8_def VARIABLES_9_def VARIABLES_10_def

lemmas var_defs =
  var_Q_def var_m_def var_c_def var_Delta_T_def var_p_def var_V_def var_n_def var_R_def
  var_T_def var_rho_def var_c_m_def var_p1_def var_v1_def var_p2_def var_v2_def var_p_total_def
  var_pA_def var_pB_def var_pC_def var_y_i_def var_n_i_def var_n_total_def
  var_Delta_H_deg_rxn_def var_Delta_S_deg_rxn_def var_Delta_G_deg_rxn_def var_Delta_H_deg_f_def
  var_Delta_G_deg_f_def var_S_deg_def var_sum_Hf_prod_def var_sum_Hf_react_def
  var_sum_Gf_prod_def var_sum_Gf_react_def var_sum_S_prod_def var_sum_S_react_def var_K_def
  var_lnK_def var_xi_def var_nu_i_def var_q_rxn_def var_Delta_H_vap_def var_Delta_H_fus_def
  var_Delta_H_deg_f_gas_def var_Delta_H_deg_f_liq_def var_nu_freq_def var_lambda_def
  var_h_planck_def var_c0_def var_E_ph_def var_Z_def var_n1_def var_n2_def var_Delta_E_def
  var_R_infty_def var_theta_def var_two_theta_def var_d_spacing_def var_a_cubic_def
  var_n_bragg_def var_h_mi_def var_k_mi_def var_l_mi_def var_q_scat_def var_s_recip_def
  var_x_i_liq_def var_y_i_gas_def var_P_sat_i_def var_p_i_def var_P_vap_total_def var_kH_Px_def
  var_kH_cP_def var_i_vH_def var_m_molal_def var_Kb_def var_Kf_def var_Delta_Tb_def
  var_Delta_Tf_def var_pi_osm_def var_c_total_ions_def var_r_part_def var_M_molar_def
  var_N_A_def var_N_def

lemmas var_aliases = var_defs[THEN arg_cong[where f = v_aliases]]
lemmas var_names = var_defs[THEN arg_cong[where f = v_name]]
lemmas var_choices = var_defs[THEN arg_cong[where f = u_choices]]

lemma dict_get_dict_set: "dict_get (dict_set k v d) k' = (if k' = k then Some v else dict_get d k')"
  by (induction d) (auto simp: dict_get_def)

lemma dict_update_append:
  "distinct (map fst (d @ d2)) \<Longrightarrow> dict_update d d2 = d @ d2"
proof (induction d2 arbitrary: d)
  case Nil
  then show ?case by (simp add: dict_update_def)
next
  case (Cons a d2)
  obtain k v where a: "a = (k, v)" by (cases a)
  from Cons.prems a have "k \<notin> fst ` set d" by auto
  then have s: "dict_set k v d = d @ [(k, v)]" by (induction d) auto
  from Cons.prems a have "distinct (map fst ((d @ [(k, v)]) @ d2))" by auto
  from Cons.IH[OF this] s a show ?case by (simp add: dict_update_def)
qed

lemma fold_dict_set_lookup:
  "dict_get (fold (\<lambda>a. dict_set (f a) c) as d) key = lookup_last (map (\<lambda>a. (f a, c)) as) key (dict_get d key)"
  by (induction as arbitrary: d) (auto simp: dict_get_dict_set)

lemma lookup_last_append: "lookup_last (xs @ ys) k acc = lookup_last ys k (lookup_last xs k acc)"
  by (induction xs arbitrary: acc) auto

lemma fold_alias_step_lookup:
  "dict_get (fold alias_step vs d) key = lookup_last (alias_assignments vs) key (dict_get d key)"
proof (induction vs arbitrary: d)
  case Nil
  then show ?case by (simp add: alias_assignments_def)
next
  case (Cons cm vs)
  obtain canon meta where cm: "cm = (canon, meta)" by (cases cm)
  have "dict_get (alias_step cm d) key = lookup_last (map (\<lambda>a. (lower a, canon)) (v_aliases meta @ [v_name meta, canon])) key (dict_get d key)"
    by (simp add: cm alias_step_def dict_get_dict_set fold_dict_set_lookup lookup_last_append)
  with Cons.IH[of "alias_step cm d"] show ?case
    by (simp add: cm alias_assignments_def lookup_last_append)
qed

lemma ALIAS_lookup: "dict_get ALIAS_TO_CANON key = lookup_last (alias_assignments VARIABLES) key None"
  unfolding ALIAS_TO_CANON_def fold_alias_step_lookup by (simp add: dict_get_def)

lemma lookup_last_const:
  "lookup_last (map (\<lambda>a. (f a, c)) as) key acc = (if key \<in> set (map f as) then Some c else acc)"
  by (induction as arbitrary: acc) auto

lemma lookup_last_carries:
  "lookup_last (alias_assignments vs) key acc =
     (case filter (carries key) vs of [] \<Rightarrow> acc | h # hs \<Rightarrow> Some (fst (last (h # hs))))"
proof (induction vs arbitrary: acc)
  case Nil
  then show ?case by (simp add: alias_assignments_def)
next
  case (Cons cm vs)
  obtain canon meta where cm: "cm = (canon, meta)" by (cases cm)
  have split: "alias_assignments (cm # vs) = map (\<lambda>a. (lower a, canon)) (v_aliases meta @ [v_name meta, canon]) @ alias_assignments vs"
    by (simp add: alias_assignments_def cm)
  have c: "carries key cm \<longleftrightarrow> key \<in> set (map lower (v_aliases meta @ [v_name meta, canon]))"
    by (simp add: carries_def cm)
  show ?case
  proof (cases "carries key cm")
    case True
    then show ?thesis
      unfolding split lookup_last_append lookup_last_const Cons.IH
      using c by (cases "filter (carries key) vs") (simp_all add: cm)
  next
    case False
    then show ?thesis
      unfolding split lookup_last_append lookup_last_const Cons.IH
      using c by (cases "filter (carries key) vs") simp_all
  qed
qed

lemma foldl_dict_update_flat:
  "distinct (map fst (d @ concat ds)) \<Longrightarrow> foldl dict_update d ds = d @ concat ds"
proof (induction ds arbitrary: d)
  case Nil
  then show ?case by simp
next
  case (Cons a ds)
  from Cons.prems have "distinct (map fst (d @ a))" by auto
  then have "dict_update d a = d @ a" by (rule dict_update_append)
  moreover from Cons.prems have "distinct (map fst ((d @ a) @ concat ds))" by simp
  ultimately show ?case using Cons.IH[of "d @ a"] by simp
qed

lemma VARIABLES_flat: "VARIABLES = VARIABLES_0 @ VARIABLES_1 @ VARIABLES_2 @ VARIABLES_3 @ VARIABLES_4 @ VARIABLES_5 @ VARIABLES_6 @ VARIABLES_7 @ VARIABLES_8 @ VARIABLES_9 @ VARIABLES_10"
proof -
  have d: "distinct (map fst (VARIABLES_0 @ concat [VARIABLES_1, VARIABLES_2, VARIABLES_3, VARIABLES_4, VARIABLES_5, VARIABLES_6, VARIABLES_7, VARIABLES_8, VARIABLES_9, VARIABLES_10]))"
    by (simp add: of_char_tab VARS_defs del: of_char_Char)
  show ?thesis
    unfolding VARIABLES_def foldl_dict_update_flat[OF d] by simp
qed


lemma alias_last:
  "dict_get ALIAS_TO_CANON key =
     (case filter (carries key) VARIABLES of [] \<Rightarrow> None | h # hs \<Rightarrow> Some (fst (last (h # hs))))"
  unfolding ALIAS_lookup lookup_last_carries ..

lemmas alias_eval = alias_last VARIABLES_flat VARS_defs carries_def var_aliases var_names lower_def lower_cp_tab of_char_tab

lemma alias_m: "dict_get ALIAS_TO_CANON (str ''m'') = Some (str ''M_molar'')"
  by (simp add: alias_eval del: of_char_Char)

lemma alias_n: "dict_get ALIAS_TO_CANON (str ''n'') = Some (str ''N'')"
  by (simp add: alias_eval del: of_char_Char)

lemma alias_c: "dict_get ALIAS_TO_CANON (str ''c'') = Some (str ''c0'')"
  by (simp add: alias_eval del: of_char_Char)

lemma alias_mass: "dict_get ALIAS_TO_CANON (str ''mass'') = Some (str ''m'')"
  by (simp add: alias_eval del: of_char_Char)

lemma is_space_tab:
  "\<not> is_space 99" "\<not> is_space 109" "\<not> is_space 110" "\<not> is_space 115" "\<not> is_space 97"
  by (simp_all add: is_space_def)

lemma strip_m: "strip (str ''m'') = str ''m''" "strip (str ''n'') = str ''n''" "strip (str ''c'') = str ''c''"
  "strip (str ''mass'') = str ''mass''"
  by (simp_all add: strip_def lstrip_def rstrip_def is_space_tab)

lemma lower_m: "lower (str ''m'') = str ''m''" "lower (str ''n'') = str ''n''" "lower (str ''c'') = str ''c''"
  "lower (str ''mass'') = str ''mass''"
  by (simp_all add: lower_def lower_cp_tab of_char_tab del: of_char_Char)

lemma nv_m: "normalize_var g (str ''m'') = Inr (str ''M_molar'')"
  unfolding normalize_var_def strip_m Let_def lower_m alias_m by simp

lemma nv_n: "normalize_var g (str ''n'') = Inr (str ''N'')"
  unfolding normalize_var_def strip_m Let_def lower_m alias_n by simp

lemma nv_c: "normalize_var g (str ''c'') = Inr (str ''c0'')"
  unfolding normalize_var_def strip_m Let_def lower_m alias_c by simp

lemma nv_mass: "normalize_var g (str ''mass'') = Inr (str ''m'')"
  unfolding normalize_var_def strip_m Let_def lower_m alias_mass by simp

lemma canon_mnc: "str ''m'' \<in> set (dict_keys VARIABLES)" "str ''n'' \<in> set (dict_keys VARIABLES)" "str ''c'' \<in> set (dict_keys VARIABLES)"
  by (simp_all add: VARIABLES_flat VARS_defs dict_keys_def)

lemma var_T: "dict_get VARIABLES (str ''T'') = Some var_T"
  by (simp add: VARIABLES_flat VARS_defs dict_get_def of_char_tab del: of_char_Char)

section \<open>Dictionary lemmas\<close>






section \<open>Rounding to binary64\<close>













section \<open>The matcher: sorting and evaluation on the bank\<close>

lemma collect_matches_alt:
  "collect_matches bank K mo =
     map (\<lambda>eq. (eq, missing_vars eq K, overlap_total eq K)) (filter (\<lambda>eq. mo \<le> overlap_total eq K) bank)"
  unfolding collect_matches_def by (induction bank) auto

lemma result_key_match:
  "m \<in> set (collect_matches bank K mo) \<Longrightarrow>
   result_key K (case m of (eq, missing, ov) \<Rightarrow> (eq, missing)) = match_key m"
  unfolding collect_matches_alt by (auto simp: result_key_def match_key_def)

lemma sorted_positions:
  assumes "sorted (map f xs)" "i < length xs" "j < length xs" "f (xs ! i) < f (xs ! j)"
  shows "i < j"
proof (rule ccontr)
  assume "\<not> i < j"
  then have "j \<le> i" by simp
  with assms(1,2) have "map f xs ! j \<le> map f xs ! i"
    by (simp add: sorted_iff_nth_mono)
  with assms show False by simp
qed

lemma overlap_total_card:
  "overlap_total eq K =
     int (card (set (eq_variables eq) \<inter> K)) +
     int (card ((set (eq_variables eq) \<inter> set (dict_keys CONSTANTS)) - K))"
proof -
  have "{v \<in> set (eq_variables eq). v \<in> set (dict_keys CONSTANTS) \<and> v \<notin> K} =
        (set (eq_variables eq) \<inter> set (dict_keys CONSTANTS)) - K" by auto
  then show ?thesis by (simp add: overlap_total_def overlap_user_def overlap_consts_def)
qed

lemmas eq_defs =
  eq_specific_heat_def eq_ideal_gas_law_def eq_density_def eq_sphere_volume_def
  eq_mass_moles_molar_mass_def eq_particle_count_def eq_particle_count_from_radius_def
  eq_molarity_def eq_boyle_def eq_dalton_partial_def eq_mole_fraction_def eq_dalton_sum2_def
  eq_dalton_sum3_def eq_gibbs_standard_def eq_equilibrium_dg_def
  eq_rxn_enthalpy_from_formation_def eq_rxn_entropy_from_S_def
  eq_rxn_gibbs_from_formation_def eq_heat_from_extent_def eq_extent_from_component_def
  eq_vap_from_formation_def eq_enthalpy_scaling_def eq_enthalpy_reverse_def
  eq_combustion_energy_def eq_planck_hnu_def eq_wave_speed_def eq_planck_hc_over_lambda_def
  eq_rydberg_lambda_def eq_bohr_transition_def eq_bragg_def eq_bragg_2theta_def
  eq_cubic_d_hkl_def eq_s_from_bragg_def eq_q_from_bragg_def eq_q_s_d_links_def
  eq_raoult_2comp_def eq_henry_px_def eq_henry_cp_def eq_osmotic_pressure_def
  eq_boiling_elevation_def eq_freezing_depression_def eq_total_ion_conc_def

lemmas eq_vars = eq_defs[THEN arg_cong[where f = eq_variables]]
lemmas eq_names = eq_defs[THEN arg_cong[where f = eq_name]]
lemmas eq_solves = eq_defs[THEN arg_cong[where f = eq_solve]]

lemma card_inter_code: "card (set xs \<inter> S) = length (filter (\<lambda>v. v \<in> S) (remdups xs))"
proof -
  have "set xs \<inter> S = set (filter (\<lambda>v. v \<in> S) (remdups xs))" by auto
  then have "card (set xs \<inter> S) = card (set (filter (\<lambda>v. v \<in> S) (remdups xs)))" by (rule arg_cong)
  also have "\<dots> = length (filter (\<lambda>v. v \<in> S) (remdups xs))"
    by (rule distinct_card) simp
  finally show ?thesis .
qed

lemma card_filter_code: "card {v \<in> set xs. P v} = length (filter P (remdups xs))"
proof -
  have "{v \<in> set xs. P v} = set (filter P (remdups xs))" by auto
  then have "card {v \<in> set xs. P v} = card (set (filter P (remdups xs)))" by (rule arg_cong)
  also have "\<dots> = length (filter P (remdups xs))"
    by (rule distinct_card) simp
  finally show ?thesis .
qed

lemma overlap_total_code:
  "overlap_total eq K =
     int (length (filter (\<lambda>v. v \<in> K) (remdups (eq_variables eq)))) +
     int (length (filter (\<lambda>v. v \<in> set (dict_keys CONSTANTS) \<and> v \<notin> K) (remdups (eq_variables eq))))"
  unfolding overlap_total_def overlap_user_def overlap_consts_def card_inter_code card_filter_code ..

lemma CONSTANTS_keys:
  "dict_keys CONSTANTS = [[82], [104], [99], [101], [82, 8734], [69, 95, 72], [955, 95, 67, 117, 75, 945],
     [955, 95, 67, 117, 75, 945, 49], [955, 95, 67, 117, 75, 945, 50], [955, 95, 77, 111, 75, 945]]"
  by (simp add: CONSTANTS_def dict_keys_def)

lemma formation_keys:
  "set (dict_keys formation_known) =
     {[916, 72, 176, 114, 120, 110],
      [115, 117, 109, 95, 72, 102, 95, 112, 114, 111, 100],
      [916, 71, 176, 114, 120, 110],
      [115, 117, 109, 95, 71, 102, 95, 112, 114, 111, 100]}"
  by (simp add: formation_known_def dict_keys_def)

lemma formation_overlaps:
  "overlap_total (eq_specific_heat body) (set (dict_keys formation_known)) = 1"
  "overlap_total (eq_ideal_gas_law body) (set (dict_keys formation_known)) = 1"
  "overlap_total (eq_density body) (set (dict_keys formation_known)) = 0"
  "overlap_total (eq_sphere_volume body) (set (dict_keys formation_known)) = 0"
  "overlap_total (eq_mass_moles_molar_mass body) (set (dict_keys formation_known)) = 0"
  "overlap_total (eq_particle_count body) (set (dict_keys formation_known)) = 0"
  "overlap_total (eq_particle_count_from_radius body) (set (dict_keys formation_known)) = 0"
  "overlap_total (eq_molarity body) (set (dict_keys formation_known)) = 0"
  "overlap_total (eq_boyle body) (set (dict_keys formation_known)) = 0"
  "overlap_total (eq_dalton_partial body) (set (dict_keys formation_known)) = 0"
  "overlap_total (eq_mole_fraction body) (set (dict_keys formation_known)) = 0"
  "overlap_total (eq_dalton_sum2 body) (set (dict_keys formation_known)) = 0"
  "overlap_total (eq_dalton_sum3 body) (set (dict_keys formation_known)) = 0"
  "overlap_total (eq_gibbs_standard body) (set (dict_keys formation_known)) = 2"
  "overlap_total (eq_equilibrium_dg body) (set (dict_keys formation_known)) = 2"
  "overlap_total (eq_rxn_enthalpy_from_formation body) (set (dict_keys formation_known)) = 2"
  "overlap_total (eq_rxn_entropy_from_S body) (set (dict_keys formation_known)) = 0"
  "overlap_total (eq_rxn_gibbs_from_formation body) (set (dict_keys formation_known)) = 2"
  "overlap_total (eq_heat_from_extent body) (set (dict_keys formation_known)) = 1"
  "overlap_total (eq_extent_from_component body) (set (dict_keys formation_known)) = 0"
  "overlap_total (eq_vap_from_formation body) (set (dict_keys formation_known)) = 0"
  "overlap_total (eq_enthalpy_scaling body) (set (dict_keys formation_known)) = 1"
  "overlap_total (eq_enthalpy_reverse body) (set (dict_keys formation_known)) = 1"
  "overlap_total (eq_combustion_energy body) (set (dict_keys formation_known)) = 1"
  "overlap_total (eq_planck_hnu body) (set (dict_keys formation_known)) = 0"
  "overlap_total (eq_wave_speed body) (set (dict_keys formation_known)) = 0"
  "overlap_total (eq_planck_hc_over_lambda body) (set (dict_keys formation_known)) = 0"
  "overlap_total (eq_rydberg_lambda body) (set (dict_keys formation_known)) = 1"
  "overlap_total (eq_bohr_transition body) (set (dict_keys formation_known)) = 1"
  "overlap_total (eq_bragg body) (set (dict_keys formation_known)) = 0"
  "overlap_total (eq_bragg_2theta body) (set (dict_keys formation_known)) = 0"
  "overlap_total (eq_cubic_d_hkl body) (set (dict_keys formation_known)) = 0"
  "overlap_total (eq_s_from_bragg body) (set (dict_keys formation_known)) = 0"
  "overlap_total (eq_q_from_bragg body) (set (dict_keys formation_known)) = 0"
  "overlap_total (eq_q_s_d_links body) (set (dict_keys formation_known)) = 0"
  "overlap_total (eq_raoult_2comp body) (set (dict_keys formation_known)) = 0"
  "overlap_total (eq_henry_px body) (set (dict_keys formation_known)) = 0"
  "overlap_total (eq_henry_cp body) (set (dict_keys formation_known)) = 0"
  "overlap_total (eq_osmotic_pressure body) (set (dict_keys formation_known)) = 1"
  "overlap_total (eq_boiling_elevation body) (set (dict_keys formation_known)) = 0"
  "overlap_total (eq_freezing_depression body) (set (dict_keys formation_known)) = 0"
  "overlap_total (eq_total_ion_conc body) (set (dict_keys formation_known)) = 0"
  unfolding overlap_total_code formation_keys CONSTANTS_keys eq_vars
  by (simp_all add: of_char_tab del: of_char_Char)

lemma formation_missing:
  "missing_vars (eq_gibbs_standard body) (set (dict_keys formation_known)) = [str ''T'', (cp_Delta # str ''S'' @ cp_deg # str ''rxn'')]"
  "missing_vars (eq_equilibrium_dg body) (set (dict_keys formation_known)) = [str ''K'', str ''T'']"
  "missing_vars (eq_rxn_enthalpy_from_formation body) (set (dict_keys formation_known)) = [str ''sum_Hf_react'']"
  "missing_vars (eq_rxn_gibbs_from_formation body) (set (dict_keys formation_known)) = [str ''sum_Gf_react'']"
  unfolding missing_vars_def formation_keys CONSTANTS_keys eq_vars
  by (simp_all add: of_char_tab del: of_char_Char)

lemma colligative_keys:
  "set (dict_keys colligative_known) =
     {[75, 98],
      [99, 95, 109],
      [105, 95, 118, 72],
      [916, 84, 98]}"
  by (simp add: colligative_known_def dict_keys_def)

lemma colligative_overlaps:
  "overlap_total (eq_specific_heat body) (set (dict_keys colligative_known)) = 1"
  "overlap_total (eq_ideal_gas_law body) (set (dict_keys colligative_known)) = 1"
  "overlap_total (eq_density body) (set (dict_keys colligative_known)) = 0"
  "overlap_total (eq_sphere_volume body) (set (dict_keys colligative_known)) = 0"
  "overlap_total (eq_mass_moles_molar_mass body) (set (dict_keys colligative_known)) = 0"
  "overlap_total (eq_particle_count body) (set (dict_keys colligative_known)) = 0"
  "overlap_total (eq_particle_count_from_radius body) (set (dict_keys colligative_known)) = 0"
  "overlap_total (eq_molarity body) (set (dict_keys colligative_known)) = 1"
  "overlap_total (eq_boyle body) (set (dict_keys colligative_known)) = 0"
  "overlap_total (eq_dalton_partial body) (set (dict_keys colligative_known)) = 0"
  "overlap_total (eq_mole_fraction body) (set (dict_keys colligative_known)) = 0"
  "overlap_total (eq_dalton_sum2 body) (set (dict_keys colligative_known)) = 0"
  "overlap_total (eq_dalton_sum3 body) (set (dict_keys colligative_known)) = 0"
  "overlap_total (eq_gibbs_standard body) (set (dict_keys colligative_known)) = 0"
  "overlap_total (eq_equilibrium_dg body) (set (dict_keys colligative_known)) = 1"
  "overlap_total (eq_rxn_enthalpy_from_formation body) (set (dict_keys colligative_known)) = 0"
  "overlap_total (eq_rxn_entropy_from_S body) (set (dict_keys colligative_known)) = 0"
  "overlap_total (eq_rxn_gibbs_from_formation body) (set (dict_keys colligative_known)) = 0"
  "overlap_total (eq_heat_from_extent body) (set (dict_keys colligative_known)) = 0"
  "overlap_total (eq_extent_from_component body) (set (dict_keys colligative_known)) = 0"
  "overlap_total (eq_vap_from_formation body) (set (dict_keys colligative_known)) = 0"
  "overlap_total (eq_enthalpy_scaling body) (set (dict_keys colligative_known)) = 0"
  "overlap_total (eq_enthalpy_reverse body) (set (dict_keys colligative_known)) = 0"
  "overlap_total (eq_combustion_energy body) (set (dict_keys colligative_known)) = 0"
  "overlap_total (eq_planck_hnu body) (set (dict_keys colligative_known)) = 0"
  "overlap_total (eq_wave_speed body) (set (dict_keys colligative_known)) = 0"
  "overlap_total (eq_planck_hc_over_lambda body) (set (dict_keys colligative_known)) = 0"
  "overlap_total (eq_rydberg_lambda body) (set (dict_keys colligative_known)) = 1"
  "overlap_total (eq_bohr_transition body) (set (dict_keys colligative_known)) = 1"
  "overlap_total (eq_bragg body) (set (dict_keys colligative_known)) = 0"
  "overlap_total (eq_bragg_2theta body) (set (dict_keys colligative_known)) = 0"
  "overlap_total (eq_cubic_d_hkl body) (set (dict_keys colligative_known)) = 0"
  "overlap_total (eq_s_from_bragg body) (set (dict_keys colligative_known)) = 0"
  "overlap_total (eq_q_from_bragg body) (set (dict_keys colligative_known)) = 0"
  "overlap_total (eq_q_s_d_links body) (set (dict_keys colligative_known)) = 0"
  "overlap_total (eq_raoult_2comp body) (set (dict_keys colligative_known)) = 0"
  "overlap_total (eq_henry_px body) (set (dict_keys colligative_known)) = 0"
  "overlap_total (eq_henry_cp body) (set (dict_keys colligative_known)) = 1"
  "overlap_total (eq_osmotic_pressure body) (set (dict_keys colligative_known)) = 3"
  "overlap_total (eq_boiling_elevation body) (set (dict_keys colligative_known)) = 3"
  "overlap_total (eq_freezing_depression body) (set (dict_keys colligative_known)) = 1"
  "overlap_total (eq_total_ion_conc body) (set (dict_keys colligative_known)) = 2"
  unfolding overlap_total_code colligative_keys CONSTANTS_keys eq_vars
  by (simp_all add: of_char_tab del: of_char_Char)

lemma colligative_missing:
  "missing_vars (eq_osmotic_pressure body) (set (dict_keys colligative_known)) = [(cp_pi # str ''_osm''), str ''T'']"
  "missing_vars (eq_boiling_elevation body) (set (dict_keys colligative_known)) = [str ''m_molal'']"
  "missing_vars (eq_total_ion_conc body) (set (dict_keys colligative_known)) = [str ''c_total_ions'']"
  unfolding missing_vars_def colligative_keys CONSTANTS_keys eq_vars
  by (simp_all add: of_char_tab del: of_char_Char)


lemma formation_matches:
  "collect_matches (EQUATIONS body) (set (dict_keys formation_known)) 2 =
     [(eq_gibbs_standard body, [str ''T'', cp_Delta # str ''S'' @ cp_deg # str ''rxn''], 2),
      (eq_equilibrium_dg body, [str ''K'', str ''T''], 2),
      (eq_rxn_enthalpy_from_formation body, [str ''sum_Hf_react''], 2),
      (eq_rxn_gibbs_from_formation body, [str ''sum_Gf_react''], 2)]"
  unfolding collect_matches_def EQUATIONS_def list.map formation_overlaps formation_missing
  by simp


lemmas key_eval = match_key_def is_solvable_def eq_solves solvers_def dict_keys_def eq_names lower_def
  lower_cp_tab of_char_tab

lemma formation_result:
  "find_applicable_equations (EQUATIONS body) formation_known 2 =
     [(eq_rxn_enthalpy_from_formation body, [str ''sum_Hf_react'']),
      (eq_rxn_gibbs_from_formation body, [str ''sum_Gf_react'']),
      (eq_equilibrium_dg body, [str ''K'', str ''T'']),
      (eq_gibbs_standard body, [str ''T'', cp_Delta # str ''S'' @ cp_deg # str ''rxn''])]"
  unfolding find_applicable_equations_def Let_def formation_matches
  by (simp add: key_eval del: of_char_Char)

lemma formation_not_spec_sorted:
  "\<not> sorted (map (spec_result_key (set (dict_keys formation_known)))
     [(eq_rxn_enthalpy_from_formation body, [str ''sum_Hf_react'']),
      (eq_rxn_gibbs_from_formation body, [str ''sum_Gf_react'']),
      (eq_equilibrium_dg body, [str ''K'', str ''T'']),
      (eq_gibbs_standard body, [str ''T'', cp_Delta # str ''S'' @ cp_deg # str ''rxn''])])"
  unfolding list.map spec_result_key_def prod.case formation_overlaps
  by (simp add: is_solvable_def eq_solves solvers_def dict_keys_def eq_names of_char_tab del: of_char_Char)

lemma colligative_matches:
  "collect_matches (EQUATIONS body) (set (dict_keys colligative_known)) 2 =
     [(eq_osmotic_pressure body, [cp_pi # str ''_osm'', str ''T''], 3),
      (eq_boiling_elevation body, [str ''m_molal''], 3),
      (eq_total_ion_conc body, [str ''c_total_ions''], 2)]"
  unfolding collect_matches_def EQUATIONS_def list.map colligative_overlaps colligative_missing
  by simp

lemma colligative_result:
  "find_applicable_equations (EQUATIONS body) colligative_known 2 =
     [(eq_boiling_elevation body, [str ''m_molal'']),
      (eq_total_ion_conc body, [str ''c_total_ions'']),
      (eq_osmotic_pressure body, [cp_pi # str ''_osm'', str ''T''])]"
  unfolding find_applicable_equations_def Let_def colligative_matches
  by (simp add: key_eval del: of_char_Char)

lemma colligative_solvable:
  "is_solvable (eq_boiling_elevation body) [str ''m_molal''] = 1"
  "is_solvable (eq_total_ion_conc body) [str ''c_total_ions''] = 1"
  "is_solvable (eq_osmotic_pressure body) [cp_pi # str ''_osm'', str ''T''] = 0"
  by (simp_all add: is_solvable_def eq_solves solvers_def dict_keys_def of_char_tab del: of_char_Char)

section \<open>Unit conversion round trip\<close>

lemma var_p: "dict_get VARIABLES (str ''p'') = Some var_p"
  by (simp add: VARIABLES_flat VARS_defs dict_get_def of_char_tab del: of_char_Char)








section \<open>Alias resolution\<close>

text \<open>
  Claim C10. \<open>normalize_var\<close> does not send every canonical key to itself. The alias table
  is filled by iterating the registry, and a later assignment to the same lowered string
  replaces the earlier one: the table sends a key to the last variable of the registry
  that carries it as a lowered alias, display name or canonical key. So the canonical
  keys \<open>m\<close>, \<open>n\<close> and \<open>c\<close> resolve to \<open>M_molar\<close>, \<open>N\<close> and \<open>c0\<close>, whatever the fuzzy
  matcher is.
\<close>

theorem alias_last_definition_wins:
  "normalize_var g (str ''m'') = Inr (str ''M_molar'') \<and>
   normalize_var g (str ''n'') = Inr (str ''N'') \<and>
   normalize_var g (str ''c'') = Inr (str ''c0'') \<and>
   str ''m'' \<in> set (dict_keys VARIABLES) \<and>
   str ''n'' \<in> set (dict_keys VARIABLES) \<and>
   str ''c'' \<in> set (dict_keys VARIABLES) \<and>
   dict_get ALIAS_TO_CANON key =
     (case filter (carries key) VARIABLES of
        [] \<Rightarrow> None
      | h # hs \<Rightarrow> Some (fst (last (h # hs))))"
  using nv_m nv_n nv_c canon_mnc alias_last by blast

text \<open>
  Claim C8. \<open>normalize_var\<close> is not idempotent: \<^verbatim>\<open>"mass"\<close> resolves to the canonical key
  \<^verbatim>\<open>"m"\<close>, and \<^verbatim>\<open>"m"\<close> resolves to \<^verbatim>\<open>"M_molar"\<close>, whatever the fuzzy matcher is. The loop that
  builds the table ends each variable with \<^verbatim>\<open>_ALIAS_TO_CANON[canon.lower()] = canon\<close>, which
  makes each canonical key a fixed point until the alias \<^verbatim>\<open>"M"\<close> of the later variable
  \<^verbatim>\<open>M_molar\<close> overwrites the entry of \<^verbatim>\<open>"m"\<close>.
\<close>

theorem normalize_var_mass_twice:
  "normalize_var g (str ''mass'') = Inr (str ''m'') \<and>
   normalize_var g (str ''m'') = Inr (str ''M_molar'') \<and>
   str ''m'' \<noteq> str ''M_molar''"
  using nv_mass nv_m by simp

section \<open>Solving an equation for a target\<close>



section \<open>Applicable equations\<close>

text \<open>
  Claim C3, as amended. For every bank, every dictionary of known values and every
  \<open>min_overlap\<close>, \<open>find_applicable_equations\<close> returns exactly the equations of the bank whose
  count of user-known variables plus variables satisfiable by constants is at least
  \<open>min_overlap\<close>, each with its missing variables (those neither known nor constants). The
  list is sorted by solvable first, then total overlap descending, then the lowered
  display name ascending (the comparison ignores case), and equations with equal keys
  keep their order in the bank. In particular a solvable equation with overlap 3 comes
  before a solvable one with overlap 2, which comes before an unsolvable one with
  overlap 3.
\<close>

theorem find_applicable_equations_contract:
  fixes bank :: "'s equation list" and known :: "(pystr \<times> 'v) list" and min_overlap :: int
  defines "K \<equiv> set (dict_keys known)"
  defines "res \<equiv> find_applicable_equations bank known min_overlap"
  defines "qualifying \<equiv> filter (\<lambda>eq. min_overlap \<le> overlap_total eq K) bank"
  shows "set res = (\<lambda>eq. (eq, missing_vars eq K)) ` set qualifying \<and>
     length res = length qualifying \<and>
     overlap_total eq K =
       int (card (set (eq_variables eq) \<inter> K)) +
       int (card ((set (eq_variables eq) \<inter> set (dict_keys CONSTANTS)) - K)) \<and>
     missing_vars eq K =
       filter (\<lambda>v. v \<notin> K \<and> v \<notin> set (dict_keys CONSTANTS)) (eq_variables eq) \<and>
     sorted (map (result_key K) res) \<and>
     filter (\<lambda>r. result_key K r = k) res =
       filter (\<lambda>r. result_key K r = k) (map (\<lambda>eq. (eq, missing_vars eq K)) qualifying) \<and>
     (\<forall>a b c. a < length res \<and> b < length res \<and> c < length res \<and>
        is_solvable (fst (res ! a)) (snd (res ! a)) = 1 \<and> overlap_total (fst (res ! a)) K = 2 \<and>
        is_solvable (fst (res ! b)) (snd (res ! b)) = 0 \<and> overlap_total (fst (res ! b)) K = 3 \<and>
        is_solvable (fst (res ! c)) (snd (res ! c)) = 1 \<and> overlap_total (fst (res ! c)) K = 3
        \<longrightarrow> c < a \<and> a < b)"
proof -
  let ?drop = "\<lambda>(eq, missing, ov). (eq, missing)"
  let ?ms = "collect_matches bank K min_overlap"
  have res: "res = map ?drop (sort_key match_key ?ms)"
    by (simp add: res_def find_applicable_equations_def K_def Let_def)
  have ms: "?ms = map (\<lambda>eq. (eq, missing_vars eq K, overlap_total eq K)) qualifying"
    by (simp add: collect_matches_alt qualifying_def)
  have dropms: "map ?drop ?ms = map (\<lambda>eq. (eq, missing_vars eq K)) qualifying"
    by (simp add: ms)
  have p1: "set res = (\<lambda>eq. (eq, missing_vars eq K)) ` set qualifying"
  proof -
    have "set res = ?drop ` set ?ms" by (simp add: res)
    also have "\<dots> = set (map ?drop ?ms)" by simp
    finally show ?thesis unfolding dropms by simp
  qed
  have p2: "length res = length qualifying" by (simp add: res ms)
  have p3: "overlap_total eq K =
           int (card (set (eq_variables eq) \<inter> K)) +
           int (card ((set (eq_variables eq) \<inter> set (dict_keys CONSTANTS)) - K))"
    by (rule overlap_total_card)
  have p4: "missing_vars eq K =
           filter (\<lambda>v. v \<notin> K \<and> v \<notin> set (dict_keys CONSTANTS)) (eq_variables eq)"
    by (simp add: missing_vars_def)
  have keys: "map (result_key K) res = map match_key (sort_key match_key ?ms)"
    unfolding res map_map
    by (rule map_cong[OF refl]) (simp add: result_key_match)
  have p5: "sorted (map (result_key K) res)" unfolding keys by simp
  have p6: "filter (\<lambda>r. result_key K r = k) res =
           filter (\<lambda>r. result_key K r = k) (map (\<lambda>eq. (eq, missing_vars eq K)) qualifying)"
  proof -
    have "filter (\<lambda>r. result_key K r = k) res =
          map ?drop (filter (\<lambda>m. result_key K (?drop m) = k) (sort_key match_key ?ms))"
      unfolding res filter_map by (simp add: comp_def)
    also have "filter (\<lambda>m. result_key K (?drop m) = k) (sort_key match_key ?ms) =
               filter (\<lambda>m. match_key m = k) (sort_key match_key ?ms)"
      by (rule filter_cong[OF refl]) (simp add: result_key_match)
    also have "\<dots> = filter (\<lambda>m. match_key m = k) ?ms" by (rule sort_key_stable)
    also have "\<dots> = filter (\<lambda>m. result_key K (?drop m) = k) ?ms"
      by (rule filter_cong[OF refl]) (simp add: result_key_match)
    also have "map ?drop \<dots> = filter (\<lambda>r. result_key K r = k) (map ?drop ?ms)"
      unfolding filter_map by (simp add: comp_def)
    finally show ?thesis unfolding dropms .
  qed
  have p7: "\<forall>a b c. a < length res \<and> b < length res \<and> c < length res \<and>
           is_solvable (fst (res ! a)) (snd (res ! a)) = 1 \<and> overlap_total (fst (res ! a)) K = 2 \<and>
           is_solvable (fst (res ! b)) (snd (res ! b)) = 0 \<and> overlap_total (fst (res ! b)) K = 3 \<and>
           is_solvable (fst (res ! c)) (snd (res ! c)) = 1 \<and> overlap_total (fst (res ! c)) K = 3
           \<longrightarrow> c < a \<and> a < b"
  proof (intro allI impI, elim conjE)
    fix a b c
    assume *: "a < length res" "b < length res" "c < length res"
      "is_solvable (fst (res ! a)) (snd (res ! a)) = 1" "overlap_total (fst (res ! a)) K = 2"
      "is_solvable (fst (res ! b)) (snd (res ! b)) = 0" "overlap_total (fst (res ! b)) K = 3"
      "is_solvable (fst (res ! c)) (snd (res ! c)) = 1" "overlap_total (fst (res ! c)) K = 3"
    have ca: "result_key K (res ! c) < result_key K (res ! a)"
      using * by (cases "res ! c"; cases "res ! a") (simp add: result_key_def)
    have ab: "result_key K (res ! a) < result_key K (res ! b)"
      using * by (cases "res ! a"; cases "res ! b") (simp add: result_key_def)
    from sorted_positions[OF p5 *(3) *(1) ca] sorted_positions[OF p5 *(1) *(2) ab]
    show "c < a \<and> a < b" by simp
  qed
  from p1 p2 p3 p4 p5 p6 p7 show ?thesis by blast
qed

theorem find_applicable_equations_contract_witness:
  "find_applicable_equations (EQUATIONS (\<lambda>k t. ())) colligative_known 2 =
     [(eq_boiling_elevation (\<lambda>k t. ()), [str ''m_molal'']),
      (eq_total_ion_conc (\<lambda>k t. ()), [str ''c_total_ions'']),
      (eq_osmotic_pressure (\<lambda>k t. ()), [cp_pi # str ''_osm'', str ''T''])] \<and>
   is_solvable (eq_total_ion_conc (\<lambda>k t. ())) [str ''c_total_ions''] = 1 \<and>
   overlap_total (eq_total_ion_conc (\<lambda>k t. ())) (set (dict_keys colligative_known)) = 2 \<and>
   is_solvable (eq_osmotic_pressure (\<lambda>k t. ())) [cp_pi # str ''_osm'', str ''T''] = 0 \<and>
   overlap_total (eq_osmotic_pressure (\<lambda>k t. ())) (set (dict_keys colligative_known)) = 3 \<and>
   is_solvable (eq_boiling_elevation (\<lambda>k t. ())) [str ''m_molal''] = 1 \<and>
   overlap_total (eq_boiling_elevation (\<lambda>k t. ())) (set (dict_keys colligative_known)) = 3 \<and>
   sorted (map (result_key (set (dict_keys colligative_known)))
     (find_applicable_equations (EQUATIONS (\<lambda>k t. ())) colligative_known 2)) \<and>
   (0::nat) < 1 \<and> (1::nat) < 2"
proof -
  let ?u = "\<lambda>(k::pystr) (t::pystr). ()"
  let ?K = "set (dict_keys colligative_known)"
  let ?res = "find_applicable_equations (EQUATIONS ?u) colligative_known 2"
  note t = find_applicable_equations_contract[of "EQUATIONS ?u" colligative_known 2]
  have s: "sorted (map (result_key ?K) ?res)" using t by blast
  have p: "\<forall>a b c. a < length ?res \<and> b < length ?res \<and> c < length ?res \<and>
        is_solvable (fst (?res ! a)) (snd (?res ! a)) = 1 \<and> overlap_total (fst (?res ! a)) ?K = 2 \<and>
        is_solvable (fst (?res ! b)) (snd (?res ! b)) = 0 \<and> overlap_total (fst (?res ! b)) ?K = 3 \<and>
        is_solvable (fst (?res ! c)) (snd (?res ! c)) = 1 \<and> overlap_total (fst (?res ! c)) ?K = 3
        \<longrightarrow> c < a \<and> a < b"
    using t by blast
  have o: "overlap_total (eq_total_ion_conc ?u) ?K = 2" "overlap_total (eq_osmotic_pressure ?u) ?K = 3"
    "overlap_total (eq_boiling_elevation ?u) ?K = 3"
    by (rule colligative_overlaps)+
  have "(0::nat) < 1 \<and> (1::nat) < 2"
    using p[rule_format, of 1 2 0] unfolding colligative_result
    using o colligative_solvable[of ?u] by simp
  with s o colligative_solvable[of ?u] colligative_result[of ?u] show ?thesis by blast
qed

text \<open>
  Claim C3 as stated orders by the display name itself. On the bank, with the reaction
  data known, the two solvable equations \<^verbatim>\<open>"Reaction enthalpy from formation data"\<close> and
  \<^verbatim>\<open>"Reaction Gibbs from formation data"\<close> have the same overlap and are returned in this
  order, while \<^verbatim>\<open>"Reaction G"\<close> is lexicographically before \<^verbatim>\<open>"Reaction e"\<close>.
\<close>

theorem matcher_not_ordered_by_display_name:
  "\<not> sorted (map (spec_result_key (set (dict_keys formation_known)))
        (find_applicable_equations (EQUATIONS (\<lambda>k t. ())) formation_known 2))"
  unfolding formation_result by (rule formation_not_spec_sorted)

end
